theory Spec2Isabelle
  imports Main
begin

section \<open>JavaScript values, objects and exceptions\<close>

text \<open>
  The values that flow through the handlers: what \<open>express.json()\<close> parses from a request
  body, what the MongoDB driver stores and returns, and what \<open>res.json\<close> is given.
  An object is its list of own properties in insertion order; none of these values is a
  function. A number is held as its text: \<open>JNum s\<close> is the number \<open>n\<close> for which
  \<open>String(n)\<close> is \<open>s\<close>, as in \<open>JNum ''0''\<close> (either zero), \<open>JNum ''0.5''\<close>,
  \<open>JNum ''1e+21''\<close> and \<open>JNum ''NaN''\<close>; the handlers only ever test a number for being
  falsy and turn it into text. \<open>JObjectId h\<close> is a driver \<open>ObjectId\<close> with hexadecimal
  text \<open>h\<close>. A \<open>Date\<close> is held as its time in milliseconds together with the text its
  \<open>toString()\<close> gives, which depends on the host's time zone.
\<close>

datatype date = Date (millis: nat) (date_text: string)

datatype jsval =
    JUndefined
  | JNull
  | JBool bool
  | JNum string
  | JStr string
  | JDate date
  | JObjectId string
  | JArr "jsval list"
  | JObj "(string \<times> jsval) list"

type_synonym doc = "(string \<times> jsval) list"

datatype exn =
    Error string
  | TypeError string
  | ReferenceError string
  | BSONError string

fun message :: "exn \<Rightarrow> string" where
  "message (Error m) = m"
| "message (TypeError m) = m"
| "message (ReferenceError m) = m"
| "message (BSONError m) = m"

text \<open>\<open>!v\<close> is \<open>\<not> truthy v\<close>; \<open>a || b\<close> is \<open>js_or a b\<close>.\<close>

fun truthy :: "jsval \<Rightarrow> bool" where
  "truthy JUndefined = False"
| "truthy JNull = False"
| "truthy (JBool b) = b"
| "truthy (JNum s) = (s \<noteq> ''0'' \<and> s \<noteq> ''NaN'')"
| "truthy (JStr s) = (s \<noteq> [])"
| "truthy (JDate t) = True"
| "truthy (JObjectId h) = True"
| "truthy (JArr xs) = True"
| "truthy (JObj d) = True"

definition js_or :: "jsval \<Rightarrow> jsval \<Rightarrow> jsval" where
  "js_or a b = (if truthy a then a else b)"

text \<open>Reading a property: \<open>undefined\<close> when the object has no such property.\<close>

definition get_prop :: "doc \<Rightarrow> string \<Rightarrow> jsval" where
  "get_prop d k = (case map_of d k of None \<Rightarrow> JUndefined | Some v \<Rightarrow> v)"

text \<open>
  \<open>v.k\<close> on a value that is neither \<open>null\<close> nor \<open>undefined\<close>: only objects carry the
  properties read here.
\<close>

fun read_prop :: "jsval \<Rightarrow> string \<Rightarrow> jsval" where
  "read_prop (JObj d) k = get_prop d k"
| "read_prop v k = JUndefined"

text \<open>
  Assigning a property, \<open>o.k = v\<close>: an existing property keeps its place and takes the new
  value, a new one is added at the end.
\<close>

fun set_prop :: "string \<Rightarrow> jsval \<Rightarrow> doc \<Rightarrow> doc" where
  "set_prop k v [] = [(k, v)]"
| "set_prop k v ((k', v') # d) = (if k' = k then (k, v) # d else (k', v') # set_prop k v d)"

text \<open>How many own properties of the object are named \<open>k\<close>.\<close>

definition count_prop :: "string \<Rightarrow> doc \<Rightarrow> nat" where
  "count_prop k d = length (filter (\<lambda>p. fst p = k) d)"

subsection \<open>Conversion to text\<close>

fun join_comma :: "string list \<Rightarrow> string" where
  "join_comma [] = []"
| "join_comma [s] = s"
| "join_comma (s # t # ss) = s @ '','' @ join_comma (t # ss)"

text \<open>
  Whether a value can be turned into text. An object can unless it has an own property
  \<open>toString\<close>: no value here is a function, so that property shadows
  \<open>Object.prototype.toString\<close> with something that cannot be called. An array can when
  each of its elements can, for its text joins theirs.
\<close>

fun printable :: "jsval \<Rightarrow> bool" where
  "printable (JObj d) = (map_of d ''toString'' = None)"
| "printable (JArr xs) = list_all printable xs"
| "printable v = True"

text \<open>The text of a printable value: what \<open>String(v)\<close> and \<open>v.toString()\<close> return for it.\<close>

fun js_text :: "jsval \<Rightarrow> string" where
  "js_text JUndefined = ''undefined''"
| "js_text JNull = ''null''"
| "js_text (JBool b) = (if b then ''true'' else ''false'')"
| "js_text (JNum s) = s"
| "js_text (JStr s) = s"
| "js_text (JDate t) = date_text t"
| "js_text (JObjectId h) = h"
| "js_text (JArr xs) =
     join_comma (map (\<lambda>x. if x = JUndefined \<or> x = JNull then [] else js_text x) xs)"
| "js_text (JObj d) = ''[object Object]''"

text \<open>\<open>String(v)\<close>, as a template literal \<open>${v}\<close> computes it.\<close>

definition String_js :: "jsval \<Rightarrow> exn + string" where
  "String_js v =
     (if printable v then Inr (js_text v)
      else Inl (TypeError ''Cannot convert object to primitive value''))"

text \<open>
  \<open>doc._id.toString()\<close> on the value \<open>v\<close> of \<open>doc._id\<close>: a \<open>TypeError\<close> on \<open>undefined\<close> and
  \<open>null\<close>, on an object whose own \<open>toString\<close> is not a function, and on an array with an
  element that cannot be turned into text.
\<close>

definition toString_js :: "jsval \<Rightarrow> exn + string" where
  "toString_js v =
     (if v = JUndefined then
        Inl (TypeError ''Cannot read properties of undefined (reading 'toString')'')
      else if v = JNull then
        Inl (TypeError ''Cannot read properties of null (reading 'toString')'')
      else if printable v then Inr (js_text v)
      else
        (case v of
           JObj d \<Rightarrow> Inl (TypeError ''doc._id.toString is not a function'')
         | _ \<Rightarrow> Inl (TypeError ''Cannot convert object to primitive value'')))"

section \<open>The document normalizer (src/server/app.js)\<close>

text \<open>
  \<^verbatim>\<open>
  function transformTaskDocument(doc) {
    if (!doc) return null;
    const task = { ...doc };
    task.id = doc._id.toString();
    return task;
  }
  \<close>
  A truthy value that is not an object has no \<open>_id\<close>: \<open>toString\<close> is then called on
  \<open>undefined\<close> and throws, so what the spread copied from such a value is never returned.
\<close>

fun spread :: "jsval \<Rightarrow> doc" where
  "spread (JObj d) = d"
| "spread v = []"

definition transformTaskDocument :: "jsval \<Rightarrow> exn + jsval" where
  "transformTaskDocument doc =
     (if \<not> truthy doc then Inr JNull
      else
        (let task = spread doc in
         case toString_js (read_prop doc ''_id'') of
           Inl e \<Rightarrow> Inl e
         | Inr s \<Rightarrow> Inr (JObj (set_prop ''id'' (JStr s) task))))"

section \<open>Identifiers in scope\<close>

text \<open>
  A scope lists the bindings an expression can see, innermost first. A binding either holds
  a value or is a host binding (a function, the request, the response, the app, a caught
  error), whose value is never read here. Evaluating an identifier that no enclosing scope
  binds throws a \<open>ReferenceError\<close>: both servers are ES modules, hence strict code, and
  Node's global object has no property \<open>id\<close>.
\<close>

datatype binding = Value jsval | Host

type_synonym scope = "(string \<times> binding) list"

definition lookup_identifier :: "scope \<Rightarrow> string \<Rightarrow> exn + binding" where
  "lookup_identifier sc x =
     (case map_of sc x of
        None \<Rightarrow> Inl (ReferenceError (x @ '' is not defined''))
      | Some b \<Rightarrow> Inr b)"

fun template_text :: "binding \<Rightarrow> exn + string" where
  "template_text (Value v) = String_js v"
| "template_text Host = Inr ''[object Object]''"

text \<open>The template literal \<^verbatim>\<open>`Task with ID ${id} not found`\<close>, evaluated in a scope.\<close>

definition not_found_message :: "scope \<Rightarrow> exn + string" where
  "not_found_message sc =
     (case lookup_identifier sc ''id'' of
        Inl e \<Rightarrow> Inl e
      | Inr b \<Rightarrow>
          (case template_text b of
             Inl e \<Rightarrow> Inl e
           | Inr s \<Rightarrow> Inr (''Task with ID '' @ s @ '' not found'')))"

text \<open>The top-level bindings of src/server/app.js: its imports, constants, variables and functions.\<close>

definition module_scope :: scope where
  "module_scope = map (\<lambda>n. (n, Host))
     [''express'', ''dotenv'', ''path'', ''fileURLToPath'', ''MongoClient'', ''ObjectId'',
      ''__filename'', ''__dirname'', ''app'', ''port'', ''uri'', ''client'', ''dbName'',
      ''db'', ''taskCollection'', ''transformTaskDocument'', ''startServer'']"

section \<open>Responses\<close>

text \<open>
  \<open>Response s v\<close> is \<open>res.status(s).json(v)\<close>; \<open>res.json(v)\<close> alone has status 200. A handler
  ends with \<open>Inr\<close> of the response it sent, or with \<open>Inl\<close> of the exception that left it
  (its promise is rejected and the handler has sent nothing).
\<close>

datatype response = Response (status: nat) (body: jsval)

definition error_body :: "string \<Rightarrow> jsval" where
  "error_body m = JObj [(''error'', JStr m)]"

definition message_body :: "string \<Rightarrow> jsval" where
  "message_body m = JObj [(''message'', JStr m)]"

section \<open>The MongoDB driver, as the handlers use it\<close>

text \<open>
  src/server/app.js imports \<open>ObjectId\<close> and the collection's methods from the MongoDB
  driver, which is not part of the repository: the handlers take them as a parameter.
  \<open>'s\<close> is the state of the database; each call returns the state afterwards and either
  the exception it rejected with (\<open>Inl\<close>) or its result (\<open>Inr\<close>).
  \<open>ObjectId_new\<close> is \<open>new ObjectId(id)\<close>, giving the key's hexadecimal text;
  \<open>find_array query\<close> is \<open>taskCollection.find(query).toArray()\<close>;
  \<open>findOne key\<close> is \<open>taskCollection.findOne({ _id: key })\<close>, a document or \<open>null\<close>;
  \<open>insertOne task\<close> is \<open>taskCollection.insertOne(task)\<close>, giving \<open>result.insertedId\<close>;
  \<open>findOneAndUpdate key changes\<close> is
  \<open>taskCollection.findOneAndUpdate({ _id: key }, { $set: changes }, { returnDocument: "after" })\<close>,
  a document or \<open>null\<close>;
  \<open>deleteOne key\<close> is \<open>taskCollection.deleteOne({ _id: key })\<close>, giving \<open>result.deletedCount\<close>.
\<close>

record 's driver =
  ObjectId_new :: "string \<Rightarrow> exn + string"
  find_array :: "doc \<Rightarrow> 's \<Rightarrow> 's \<times> (exn + doc list)"
  findOne :: "jsval \<Rightarrow> 's \<Rightarrow> 's \<times> (exn + jsval)"
  insertOne :: "doc \<Rightarrow> 's \<Rightarrow> 's \<times> (exn + jsval)"
  findOneAndUpdate :: "jsval \<Rightarrow> doc \<Rightarrow> 's \<Rightarrow> 's \<times> (exn + jsval)"
  deleteOne :: "jsval \<Rightarrow> 's \<Rightarrow> 's \<times> (exn + nat)"

section \<open>The request handlers of src/server/app.js\<close>

text \<open>
  Each handler takes the driver, the state of the database, what the request carries and
  the readings it takes of the clock, and returns the state afterwards with what the
  handler ended with. The body of each \<open>try\<close> is a definition of its own, and the handler
  is its \<open>catch\<close> around it.
\<close>

subsection \<open>GET /api/tasks\<close>

text \<open>
  \<^verbatim>\<open>
  const { complete } = req.query;
  let query = {};
  if (complete !== undefined) {
    const isCompleted = complete === "true";
    query = { complete: isCompleted };
  }
  \<close>
  \<open>complete\<close> is what the query string parser made of the parameter: \<open>undefined\<close> when it
  is absent, a string when it is given once.
\<close>

definition tasks_query :: "jsval \<Rightarrow> doc" where
  "tasks_query complete =
     (if complete \<noteq> JUndefined then
        (let isCompleted = (complete = JStr ''true'') in [(''complete'', JBool isCompleted)])
      else [])"

fun map_try :: "('a \<Rightarrow> exn + 'b) \<Rightarrow> 'a list \<Rightarrow> exn + 'b list" where
  "map_try f [] = Inr []"
| "map_try f (x # xs) =
     (case f x of
        Inl e \<Rightarrow> Inl e
      | Inr y \<Rightarrow> (case map_try f xs of Inl e \<Rightarrow> Inl e | Inr ys \<Rightarrow> Inr (y # ys)))"

definition get_tasks_try :: "'s driver \<Rightarrow> 's \<Rightarrow> jsval \<Rightarrow> 's \<times> (exn + response)" where
  "get_tasks_try D st complete =
     (let query = tasks_query complete in
      case find_array D query st of
        (st', Inl e) \<Rightarrow> (st', Inl e)
      | (st', Inr tasks) \<Rightarrow>
          (case map_try (\<lambda>task. transformTaskDocument (JObj task)) tasks of
             Inl e \<Rightarrow> (st', Inl e)
           | Inr transformedTasks \<Rightarrow> (st', Inr (Response 200 (JArr transformedTasks)))))"

definition get_tasks :: "'s driver \<Rightarrow> 's \<Rightarrow> jsval \<Rightarrow> 's \<times> (exn + response)" where
  "get_tasks D st complete =
     (case get_tasks_try D st complete of
        (st', Inl error) \<Rightarrow> (st', Inr (Response 500 (error_body (message error))))
      | (st', Inr r) \<Rightarrow> (st', Inr r))"

subsection \<open>GET /api/tasks/:id\<close>

definition get_task_scope :: "string \<Rightarrow> string \<Rightarrow> jsval \<Rightarrow> scope" where
  "get_task_scope id' objectId task =
     [(''id'', Value (JStr id')), (''objectId'', Value (JObjectId objectId)), (''task'', Value task),
      (''req'', Host), (''res'', Host)] @ module_scope"

definition get_task_try :: "'s driver \<Rightarrow> 's \<Rightarrow> string \<Rightarrow> 's \<times> (exn + response)" where
  "get_task_try D st id' =
     (case ObjectId_new D id' of
        Inl e \<Rightarrow> (st, Inl e)
      | Inr objectId \<Rightarrow>
          (case findOne D (JObjectId objectId) st of
             (st', Inl e) \<Rightarrow> (st', Inl e)
           | (st', Inr task) \<Rightarrow>
               if \<not> truthy task then
                 (case not_found_message (get_task_scope id' objectId task) of
                    Inl e \<Rightarrow> (st', Inl e)
                  | Inr m \<Rightarrow> (st', Inr (Response 404 (error_body m))))
               else
                 (case transformTaskDocument task of
                    Inl e \<Rightarrow> (st', Inl e)
                  | Inr transformedTask \<Rightarrow> (st', Inr (Response 200 transformedTask)))))"

definition get_task :: "'s driver \<Rightarrow> 's \<Rightarrow> string \<Rightarrow> 's \<times> (exn + response)" where
  "get_task D st id' =
     (case get_task_try D st id' of
        (st', Inl error) \<Rightarrow> (st', Inr (Response 500 (error_body ''Invalid ID format'')))
      | (st', Inr r) \<Rightarrow> (st', Inr r))"

subsection \<open>POST /api/tasks\<close>

text \<open>
  \<open>req_body\<close> is the object \<open>express.json()\<close> parsed; \<open>created\<close> and \<open>updated\<close> are the two
  dates the clock gives (\<open>new Date()\<close> twice). The constants of the \<open>try\<close> block are out
  of scope in the \<open>catch\<close> block.
\<close>

definition post_catch_scope :: scope where
  "post_catch_scope = [(''error'', Host), (''req'', Host), (''res'', Host)] @ module_scope"

definition post_task :: "doc \<Rightarrow> date \<Rightarrow> date \<Rightarrow> doc" where
  "post_task req_body created updated =
     (let title = get_prop req_body ''title'';
          description = get_prop req_body ''description'';
          complete = get_prop req_body ''complete''
      in [(''title'', title),
          (''description'', js_or description (JStr [])),
          (''complete'', js_or complete (JBool False)),
          (''createdAt'', JDate created),
          (''updatedAt'', JDate updated)])"

definition post_tasks_try :: "'s driver \<Rightarrow> 's \<Rightarrow> date \<Rightarrow> date \<Rightarrow> doc \<Rightarrow> 's \<times> (exn + response)" where
  "post_tasks_try D st created updated req_body =
     (if \<not> truthy (get_prop req_body ''title'') then
        (st, Inr (Response 404 (error_body ''Title is required'')))
      else
        (let task = post_task req_body created updated in
         case insertOne D task st of
           (st1, Inl e) \<Rightarrow> (st1, Inl e)
         | (st1, Inr insertedId) \<Rightarrow>
             (case findOne D insertedId st1 of
                (st2, Inl e) \<Rightarrow> (st2, Inl e)
              | (st2, Inr insertedTask) \<Rightarrow> (st2, Inr (Response 201 insertedTask)))))"

definition post_tasks :: "'s driver \<Rightarrow> 's \<Rightarrow> date \<Rightarrow> date \<Rightarrow> doc \<Rightarrow> 's \<times> (exn + response)" where
  "post_tasks D st created updated req_body =
     (case post_tasks_try D st created updated req_body of
        (st', Inl error) \<Rightarrow>
          (case not_found_message post_catch_scope of
             Inl e \<Rightarrow> (st', Inl e)
           | Inr m \<Rightarrow> (st', Inr (Response 404 (error_body m))))
      | (st', Inr r) \<Rightarrow> (st', Inr r))"

subsection \<open>PUT /api/tasks/:id\<close>

definition put_scope :: "string \<Rightarrow> doc \<Rightarrow> string \<Rightarrow> jsval \<Rightarrow> scope" where
  "put_scope id' req_body objectId result =
     [(''id'', Value (JStr id')),
      (''title'', Value (get_prop req_body ''title'')),
      (''description'', Value (get_prop req_body ''description'')),
      (''complete'', Value (get_prop req_body ''complete'')),
      (''objectId'', Value (JObjectId objectId)),
      (''updateDoc'', Host), (''result'', Value result), (''updatedTask'', Value result),
      (''req'', Host), (''res'', Host)] @ module_scope"

definition put_set :: "doc \<Rightarrow> date \<Rightarrow> doc" where
  "put_set req_body now =
     [(''title'', get_prop req_body ''title''),
      (''description'', get_prop req_body ''description''),
      (''complete'', get_prop req_body ''complete''),
      (''updatedAt'', JDate now)]"

definition put_task_try :: "'s driver \<Rightarrow> 's \<Rightarrow> date \<Rightarrow> string \<Rightarrow> doc \<Rightarrow> 's \<times> (exn + response)" where
  "put_task_try D st now id' req_body =
     (case ObjectId_new D id' of
        Inl e \<Rightarrow> (st, Inl e)
      | Inr objectId \<Rightarrow>
          (case findOneAndUpdate D (JObjectId objectId) (put_set req_body now) st of
             (st', Inl e) \<Rightarrow> (st', Inl e)
           | (st', Inr updatedTask) \<Rightarrow>
               if \<not> truthy updatedTask then
                 (case not_found_message (put_scope id' req_body objectId updatedTask) of
                    Inl e \<Rightarrow> (st', Inl e)
                  | Inr m \<Rightarrow> (st', Inr (Response 404 (error_body m))))
               else
                 (case transformTaskDocument updatedTask of
                    Inl e \<Rightarrow> (st', Inl e)
                  | Inr transformedTask \<Rightarrow> (st', Inr (Response 200 transformedTask)))))"

definition put_task :: "'s driver \<Rightarrow> 's \<Rightarrow> date \<Rightarrow> string \<Rightarrow> doc \<Rightarrow> 's \<times> (exn + response)" where
  "put_task D st now id' req_body =
     (case put_task_try D st now id' req_body of
        (st', Inl error) \<Rightarrow> (st', Inr (Response 500 (error_body (message error))))
      | (st', Inr r) \<Rightarrow> (st', Inr r))"

subsection \<open>DELETE /api/tasks/:id\<close>

definition delete_scope :: "string \<Rightarrow> string \<Rightarrow> scope" where
  "delete_scope id' objectId =
     [(''id'', Value (JStr id')), (''objectId'', Value (JObjectId objectId)), (''result'', Host),
      (''req'', Host), (''res'', Host)] @ module_scope"

definition delete_task_try :: "'s driver \<Rightarrow> 's \<Rightarrow> string \<Rightarrow> 's \<times> (exn + response)" where
  "delete_task_try D st id' =
     (case ObjectId_new D id' of
        Inl e \<Rightarrow> (st, Inl e)
      | Inr objectId \<Rightarrow>
          (case deleteOne D (JObjectId objectId) st of
             (st', Inl e) \<Rightarrow> (st', Inl e)
           | (st', Inr deletedCount) \<Rightarrow>
               if deletedCount = 0 then
                 (case not_found_message (delete_scope id' objectId) of
                    Inl e \<Rightarrow> (st', Inl e)
                  | Inr m \<Rightarrow> (st', Inr (Response 404 (error_body m))))
               else (st', Inr (Response 200 (message_body ''Task deleted successfully'')))))"

definition delete_task :: "'s driver \<Rightarrow> 's \<Rightarrow> string \<Rightarrow> 's \<times> (exn + response)" where
  "delete_task D st id' =
     (case delete_task_try D st id' of
        (st', Inl error) \<Rightarrow> (st', Inr (Response 500 (error_body (message error))))
      | (st', Inr r) \<Rightarrow> (st', Inr r))"

section \<open>The request handlers of the Supabase server (src/unnamed/part_000)\<close>

text \<open>
  The hosted table and its client library are not part of the repository, nor is the
  table's schema. A handler builds one request, awaits the client's reply
  \<open>{ data, error }\<close> and answers from it; the client is a parameter, and a handler returns
  the requests it issued together with what it ended with.
\<close>

datatype sb_request =
    SbSelect "bool option"
  | SbSelectSingle string
  | SbInsert doc
  | SbUpdate string doc
  | SbDelete string

text \<open>
  \<open>SbSelect f\<close> is \<open>from("tasks").select("*")\<close>, with \<open>.eq("complete", b)\<close> when \<open>f = Some b\<close>;
  \<open>SbSelectSingle i\<close> is \<open>.select("*").eq("id", i).single()\<close>; \<open>SbInsert row\<close> is
  \<open>.insert(row).select()\<close>; \<open>SbUpdate i row\<close> is \<open>.update(row).eq("id", i).select()\<close>;
  \<open>SbDelete i\<close> is \<open>.delete().eq("id", i)\<close>. In a reply, \<open>sb_error\<close> is the message of a
  non-null \<open>error\<close>.
\<close>

datatype sb_reply = SbReply (sb_data: jsval) (sb_error: "string option")

text \<open>The top-level bindings of src/unnamed/part_000.\<close>

definition sb_module_scope :: scope where
  "sb_module_scope = map (\<lambda>n. (n, Host))
     [''express'', ''dotenv'', ''path'', ''fileURLToPath'', ''createClient'', ''json'',
      ''__filename'', ''__dirname'', ''app'', ''port'', ''supabaseUrl'', ''supabaseKey'',
      ''supabase'']"

text \<open>\<open>data[0]\<close>\<close>

fun index0 :: "jsval \<Rightarrow> exn + jsval" where
  "index0 JUndefined = Inl (TypeError ''Cannot read properties of undefined (reading '0')'')"
| "index0 JNull = Inl (TypeError ''Cannot read properties of null (reading '0')'')"
| "index0 (JArr []) = Inr JUndefined"
| "index0 (JArr (x # xs)) = Inr x"
| "index0 (JStr []) = Inr JUndefined"
| "index0 (JStr (c # cs)) = Inr (JStr [c])"
| "index0 (JObj d) = Inr (get_prop d ''0'')"
| "index0 v = Inr JUndefined"

definition sb_tasks_query :: "jsval \<Rightarrow> sb_request" where
  "sb_tasks_query complete =
     (if complete \<noteq> JUndefined then
        (let isCompleted = (complete = JStr ''true'') in SbSelect (Some isCompleted))
      else SbSelect None)"

definition sb_get_tasks :: "(sb_request \<Rightarrow> sb_reply) \<Rightarrow> jsval \<Rightarrow> sb_request list \<times> (exn + response)" where
  "sb_get_tasks supabase complete =
     (let query = sb_tasks_query complete; reply = supabase query in
      case sb_error reply of
        Some m \<Rightarrow> ([query], Inr (Response 500 (error_body m)))
      | None \<Rightarrow> ([query], Inr (Response 200 (sb_data reply))))"

definition sb_get_task :: "(sb_request \<Rightarrow> sb_reply) \<Rightarrow> string \<Rightarrow> sb_request list \<times> (exn + response)" where
  "sb_get_task supabase id' =
     (let query = SbSelectSingle id'; reply = supabase query in
      case sb_error reply of
        Some m \<Rightarrow>
          (case not_found_message
                  ([(''id'', Value (JStr id')), (''data'', Value (sb_data reply)), (''error'', Host),
                    (''req'', Host), (''res'', Host)] @ sb_module_scope) of
             Inl e \<Rightarrow> ([query], Inl e)
           | Inr t \<Rightarrow> ([query], Inr (Response 404 (error_body t))))
      | None \<Rightarrow> ([query], Inr (Response 200 (sb_data reply))))"

definition sb_post_row :: "doc \<Rightarrow> doc" where
  "sb_post_row req_body =
     (let title = get_prop req_body ''title'';
          description = get_prop req_body ''description'';
          complete = get_prop req_body ''complete''
      in [(''title'', title),
          (''description'', description),
          (''complete'', js_or complete (JBool False))])"

definition sb_post_scope :: "doc \<Rightarrow> jsval \<Rightarrow> scope" where
  "sb_post_scope req_body dat =
     [(''title'', Value (get_prop req_body ''title'')),
      (''description'', Value (get_prop req_body ''description'')),
      (''complete'', Value (get_prop req_body ''complete'')),
      (''data'', Value dat), (''error'', Host),
      (''req'', Host), (''res'', Host)] @ sb_module_scope"

definition sb_post_tasks :: "(sb_request \<Rightarrow> sb_reply) \<Rightarrow> doc \<Rightarrow> sb_request list \<times> (exn + response)" where
  "sb_post_tasks supabase req_body =
     (if \<not> truthy (get_prop req_body ''title'') then
        ([], Inr (Response 404 (error_body ''Title is required'')))
      else
        (let query = SbInsert (sb_post_row req_body); reply = supabase query in
         case sb_error reply of
           Some m \<Rightarrow>
             (case not_found_message (sb_post_scope req_body (sb_data reply)) of
                Inl e \<Rightarrow> ([query], Inl e)
              | Inr t \<Rightarrow> ([query], Inr (Response 404 (error_body t))))
         | None \<Rightarrow>
             (case index0 (sb_data reply) of
                Inl e \<Rightarrow> ([query], Inl e)
              | Inr row \<Rightarrow> ([query], Inr (Response 201 row)))))"

definition sb_put_task :: "(sb_request \<Rightarrow> sb_reply) \<Rightarrow> string \<Rightarrow> doc \<Rightarrow> sb_request list \<times> (exn + response)" where
  "sb_put_task supabase id' req_body =
     (let query = SbUpdate id'
            [(''title'', get_prop req_body ''title''),
             (''description'', get_prop req_body ''description''),
             (''complete'', get_prop req_body ''complete'')];
          reply = supabase query in
      case sb_error reply of
        Some m \<Rightarrow> ([query], Inr (Response 500 (error_body m)))
      | None \<Rightarrow>
          (case index0 (sb_data reply) of
             Inl e \<Rightarrow> ([query], Inl e)
           | Inr row \<Rightarrow> ([query], Inr (Response 200 row))))"

definition sb_delete_task :: "(sb_request \<Rightarrow> sb_reply) \<Rightarrow> string \<Rightarrow> sb_request list \<times> (exn + response)" where
  "sb_delete_task supabase id' =
     (let query = SbDelete id'; reply = supabase query in
      case sb_error reply of
        Some m \<Rightarrow> ([query], Inr (Response 500 (error_body m)))
      | None \<Rightarrow> ([query], Inr (Response 200 (message_body ''Task deleted successfully''))))"

section \<open>The normalizer on a heap of objects\<close>

text \<open>
  Whether \<open>transformTaskDocument\<close> changes the object it is given is a question about
  references, so here objects live at addresses. \<open>doc\<close> is \<open>None\<close> for \<open>null\<close> or the
  address of the record; the spread allocates the copy, and the assignment to \<open>task.id\<close>
  writes to the copy.
\<close>

type_synonym addr = nat

record heap =
  cells :: "addr \<Rightarrow> doc option"
  next_addr :: addr

definition heap_props :: "heap \<Rightarrow> addr \<Rightarrow> doc" where
  "heap_props h a = (case cells h a of None \<Rightarrow> [] | Some d \<Rightarrow> d)"

definition heap_new :: "heap \<Rightarrow> doc \<Rightarrow> heap \<times> addr" where
  "heap_new h d = (h\<lparr>cells := (cells h)(next_addr h \<mapsto> d), next_addr := Suc (next_addr h)\<rparr>, next_addr h)"

definition heap_assign :: "heap \<Rightarrow> addr \<Rightarrow> string \<Rightarrow> jsval \<Rightarrow> heap" where
  "heap_assign h a k v = h\<lparr>cells := (cells h)(a \<mapsto> set_prop k v (heap_props h a))\<rparr>"

definition transformTaskDocument_heap :: "heap \<Rightarrow> addr option \<Rightarrow> heap \<times> (exn + addr option)" where
  "transformTaskDocument_heap h doc =
     (case doc of
        None \<Rightarrow> (h, Inr None)
      | Some a \<Rightarrow>
          (case heap_new h (heap_props h a) of
             (h1, task) \<Rightarrow>
               (case toString_js (get_prop (heap_props h1 a) ''_id'') of
                  Inl e \<Rightarrow> (h1, Inl e)
                | Inr s \<Rightarrow> (heap_assign h1 task ''id'' (JStr s), Inr (Some task)))))"

section \<open>The client's list loader (src/client/src/api/tasks.js)\<close>

text \<open>
  \<open>loadTasks\<close> reads the \<open>complete\<close> parameter of the request's URL, fetches and decodes.
  What the host gives it is a parameter: \<open>complete\<close> is what
  \<open>new URL(request.url).searchParams.get('complete')\<close> comes to (\<open>Inl\<close> when it throws,
  \<open>Inr None\<close> for \<open>null\<close>); \<open>fetch\<close> rejects (\<open>Inl\<close>) or resolves to a response, whose
  \<open>json_result\<close> is what \<open>response.json()\<close> settles to (\<open>Inl\<close> when the body is not JSON),
  \<open>http_status\<close> is \<open>response.status\<close>, and \<open>ok\<close> says whether it is in the range 200 to 299.
  The result of \<open>loadTasks\<close> is \<open>Inl\<close> when its promise is rejected. The calls to
  \<open>console.log\<close> and \<open>console.error\<close> have no part in the result and are left out.
\<close>

record fetch_response =
  ok :: bool
  http_status :: jsval
  json_result :: "exn + jsval"

definition API_BASE :: string where
  "API_BASE = ''/api''"

text \<open>\<open>v.k\<close> on any value.\<close>

definition member :: "jsval \<Rightarrow> string \<Rightarrow> exn + jsval" where
  "member v k =
     (if v = JUndefined then
        Inl (TypeError (''Cannot read properties of undefined (reading '' @ [CHR 0x27] @ k @ [CHR 0x27] @ '')''))
      else if v = JNull then
        Inl (TypeError (''Cannot read properties of null (reading '' @ [CHR 0x27] @ k @ [CHR 0x27] @ '')''))
      else Inr (read_prop v k))"

text \<open>
  \<^verbatim>\<open>
  let endpoint = `${API_BASE}/tasks`;
  if (complete !== null) {
    endpoint += `?complete=${complete}`;
  }
  \<close>
\<close>

definition loadTasks_endpoint :: "string option \<Rightarrow> string" where
  "loadTasks_endpoint complete =
     (case complete of
        None \<Rightarrow> API_BASE @ ''/tasks''
      | Some c \<Rightarrow> (API_BASE @ ''/tasks'') @ ''?complete='' @ c)"

definition loadTasks_try :: "exn + string option \<Rightarrow> (string \<Rightarrow> exn + fetch_response) \<Rightarrow> exn + jsval" where
  "loadTasks_try complete fetch =
     (case complete of
        Inl e \<Rightarrow> Inl e
      | Inr complete' \<Rightarrow>
          (let endpoint = loadTasks_endpoint complete'
           in case fetch endpoint of
                Inl e \<Rightarrow> Inl e
              | Inr response \<Rightarrow>
                  if \<not> ok response then
                    (let errorData = (case json_result response of Inl e \<Rightarrow> JObj [] | Inr v \<Rightarrow> v)
                     in case member errorData ''error'' of
                          Inl e \<Rightarrow> Inl e
                        | Inr m \<Rightarrow>
                            (case (if truthy m then String_js m
                                   else (case String_js (http_status response) of
                                           Inl e \<Rightarrow> Inl e
                                         | Inr s \<Rightarrow> Inr (''Failed to fetch tasks: '' @ s))) of
                               Inl e \<Rightarrow> Inl e
                             | Inr t \<Rightarrow> Inl (Error t)))
                  else json_result response))"

definition loadTasks :: "exn + string option \<Rightarrow> (string \<Rightarrow> exn + fetch_response) \<Rightarrow> exn + jsval" where
  "loadTasks complete fetch =
     (case loadTasks_try complete fetch of
        Inl error \<Rightarrow> Inr (JArr [])
      | Inr dat \<Rightarrow> Inr dat)"

section \<open>A driver over a collection in memory\<close>

text \<open>
  A driver to run the handlers with. It keeps the collection as the list of its
  documents in natural order and follows the documented behaviour of the MongoDB driver.
  \<open>faults\<close> says how the coming driver calls end: \<open>Some m\<close> makes the next call reject
  with \<open>Error(m)\<close> and leave the collection as it is, \<open>None\<close> (or an exhausted list)
  lets it run.
\<close>

record store =
  docs :: "doc list"
  faults :: "string option list"

definition driver_call :: "store \<Rightarrow> (store \<Rightarrow> store \<times> (exn + 'a)) \<Rightarrow> store \<times> (exn + 'a)" where
  "driver_call st f =
     (case faults st of
        [] \<Rightarrow> f st
      | None # fs \<Rightarrow> f (st\<lparr>faults := fs\<rparr>)
      | Some m # fs \<Rightarrow> (st\<lparr>faults := fs\<rparr>, Inl (Error m)))"

text \<open>
  \<open>new ObjectId(id)\<close> on a string, as the driver generation does whose
  \<open>findOneAndUpdate\<close> returns the document itself (which src/server/app.js relies on):
  24 hexadecimal digits, or a \<open>BSONError\<close>. The text of an \<open>ObjectId\<close> is in lower case.
\<close>

definition is_hex_digit :: "char \<Rightarrow> bool" where
  "is_hex_digit c = (c \<in> set ''0123456789abcdefABCDEF'')"

definition lower_hex :: "char \<Rightarrow> char" where
  "lower_hex c = (if c \<in> set ''ABCDEF'' then char_of (of_char c + (32::nat)) else c)"

definition mem_ObjectId_new :: "string \<Rightarrow> exn + string" where
  "mem_ObjectId_new s =
     (if length s = 24 \<and> list_all is_hex_digit s then Inr (map lower_hex s)
      else Inl (BSONError
        ''input must be a 24 character hex string, 12 byte Uint8Array, or an integer''))"

text \<open>
  An equality query \<open>{k: q}\<close> selects the documents whose field \<open>k\<close> is \<open>q\<close> or is an
  array with the element \<open>q\<close>; a missing field is not equal to a boolean or an
  \<open>ObjectId\<close>. The key \<open>_id\<close> of a document is never an array, so a query on it
  selects the documents whose key is \<open>q\<close>. The empty query selects every document.
\<close>

fun value_matches :: "jsval \<Rightarrow> jsval \<Rightarrow> bool" where
  "value_matches (JArr xs) q = (JArr xs = q \<or> q \<in> set xs)"
| "value_matches v q = (v = q)"

definition doc_matches :: "doc \<Rightarrow> doc \<Rightarrow> bool" where
  "doc_matches q d =
     list_all (\<lambda>p. if fst p = ''_id'' then get_prop d ''_id'' = snd p
                    else value_matches (get_prop d (fst p)) (snd p)) q"

text \<open>A field given as \<open>undefined\<close> is stored as \<open>null\<close> (the \<open>ignoreUndefined\<close> option is off).\<close>

definition bson :: "jsval \<Rightarrow> jsval" where
  "bson v = (if v = JUndefined then JNull else v)"

fun update_first :: "('a \<Rightarrow> bool) \<Rightarrow> ('a \<Rightarrow> 'a) \<Rightarrow> 'a list \<Rightarrow> 'a list" where
  "update_first P f [] = []"
| "update_first P f (d # ds) = (if P d then f d # ds else d # update_first P f ds)"

fun remove_first :: "('a \<Rightarrow> bool) \<Rightarrow> 'a list \<Rightarrow> 'a list" where
  "remove_first P [] = []"
| "remove_first P (d # ds) = (if P d then ds else d # remove_first P ds)"

text \<open>\<open>find(query).toArray()\<close>: the documents the query selects.\<close>

definition mem_find_array :: "doc \<Rightarrow> store \<Rightarrow> store \<times> (exn + doc list)" where
  "mem_find_array query st = driver_call st (\<lambda>s. (s, Inr (filter (doc_matches query) (docs s))))"

text \<open>\<open>findOne({ _id: key })\<close>: the first match, or \<open>null\<close>.\<close>

definition mem_findOne :: "jsval \<Rightarrow> store \<Rightarrow> store \<times> (exn + jsval)" where
  "mem_findOne key st = driver_call st (\<lambda>s.
     (s, Inr (case List.find (doc_matches [(''_id'', key)]) (docs s) of
                None \<Rightarrow> JNull
              | Some d \<Rightarrow> JObj d)))"

text \<open>
  \<open>insertOne(task)\<close> for a task without \<open>_id\<close>, as the handler builds it: the
  driver generates the key \<open>new_id\<close>, the collection refuses a key it already holds, and
  the result carries \<open>insertedId\<close>.
\<close>

definition mem_insertOne :: "string \<Rightarrow> doc \<Rightarrow> store \<Rightarrow> store \<times> (exn + jsval)" where
  "mem_insertOne new_id task st = driver_call st (\<lambda>s.
     if list_ex (doc_matches [(''_id'', JObjectId new_id)]) (docs s)
     then (s, Inl (Error ''E11000 duplicate key error''))
     else (s\<lparr>docs := docs s @ [(''_id'', JObjectId new_id) # map (\<lambda>p. (fst p, bson (snd p))) task]\<rparr>,
           Inr (JObjectId new_id)))"

text \<open>
  \<open>findOneAndUpdate({ _id: key }, { $set: changes }, { returnDocument: "after" })\<close>: the
  first match with the changes applied, or \<open>null\<close> when nothing matches.
\<close>

definition apply_set :: "doc \<Rightarrow> doc \<Rightarrow> doc" where
  "apply_set changes d = fold (\<lambda>p acc. set_prop (fst p) (bson (snd p)) acc) changes d"

definition mem_findOneAndUpdate :: "jsval \<Rightarrow> doc \<Rightarrow> store \<Rightarrow> store \<times> (exn + jsval)" where
  "mem_findOneAndUpdate key changes st = driver_call st (\<lambda>s.
     case List.find (doc_matches [(''_id'', key)]) (docs s) of
       None \<Rightarrow> (s, Inr JNull)
     | Some d \<Rightarrow>
         (s\<lparr>docs := update_first (doc_matches [(''_id'', key)]) (apply_set changes) (docs s)\<rparr>,
          Inr (JObj (apply_set changes d))))"

text \<open>\<open>deleteOne({ _id: key })\<close>: the first match leaves; the result is \<open>deletedCount\<close>.\<close>

definition mem_deleteOne :: "jsval \<Rightarrow> store \<Rightarrow> store \<times> (exn + nat)" where
  "mem_deleteOne key st = driver_call st (\<lambda>s.
     case List.find (doc_matches [(''_id'', key)]) (docs s) of
       None \<Rightarrow> (s, Inr 0)
     | Some d \<Rightarrow> (s\<lparr>docs := remove_first (doc_matches [(''_id'', key)]) (docs s)\<rparr>, Inr 1))"

text \<open>The driver itself; \<open>new_id\<close> is the key it generates for the next insert.\<close>

definition memory_driver :: "string \<Rightarrow> store driver" where
  "memory_driver new_id =
     \<lparr>ObjectId_new = mem_ObjectId_new,
      find_array = mem_find_array,
      findOne = mem_findOne,
      insertOne = mem_insertOne new_id,
      findOneAndUpdate = mem_findOneAndUpdate,
      deleteOne = mem_deleteOne\<rparr>"

subsection \<open>Driver calls that run\<close>

text \<open>
  \<open>calls_run n st\<close>: none of the next \<open>n\<close> driver calls is made to fail;
  \<open>after_calls n st\<close> is the store once \<open>n\<close> calls have been answered, its documents apart.
\<close>

definition calls_run :: "nat \<Rightarrow> store \<Rightarrow> bool" where
  "calls_run n st = list_all (\<lambda>f. f = None) (take n (faults st))"

definition after_calls :: "nat \<Rightarrow> store \<Rightarrow> store" where
  "after_calls n st = st\<lparr>faults := drop n (faults st)\<rparr>"

section \<open>Sample stores, requests and clients\<close>

definition empty_store :: store where
  "empty_store = \<lparr>docs = [], faults = []\<rparr>"

definition failing_store :: store where
  "failing_store = \<lparr>docs = [], faults = [Some ''connection lost'']\<rparr>"

text \<open>Three dates, as a host in the time zone UTC prints them.\<close>

definition date10 :: date where
  "date10 = Date 10 ''Thu Jan 01 1970 00:00:00 GMT+0000 (Coordinated Universal Time)''"

definition date11 :: date where
  "date11 = Date 11 ''Thu Jan 01 1970 00:00:00 GMT+0000 (Coordinated Universal Time)''"

definition date20 :: date where
  "date20 = Date 20 ''Thu Jan 01 1970 00:00:00 GMT+0000 (Coordinated Universal Time)''"

definition milk_id :: string where
  "milk_id = ''0123456789abcdef01234567''"

text \<open>The driver in memory, about to generate \<open>milk_id\<close>.\<close>

definition milk_driver :: "store driver" where
  "milk_driver = memory_driver milk_id"

definition milk_body :: doc where
  "milk_body = [(''title'', JStr ''Buy milk'')]"

definition milk_doc :: doc where
  "milk_doc =
     [(''_id'', JObjectId milk_id), (''title'', JStr ''Buy milk''), (''description'', JStr []),
      (''complete'', JBool False), (''createdAt'', JDate date10), (''updatedAt'', JDate date11)]"

definition milk_store :: store where
  "milk_store = \<lparr>docs = [milk_doc], faults = []\<rparr>"

definition milk_task :: doc where
  "milk_task = milk_doc @ [(''id'', JStr milk_id)]"

definition cream_body :: doc where
  "cream_body =
     [(''title'', JStr ''Buy milk''), (''description'', JStr ''2%''), (''complete'', JBool True)]"

definition cream_doc :: doc where
  "cream_doc =
     [(''_id'', JObjectId milk_id), (''title'', JStr ''Buy milk''), (''description'', JStr ''2%''),
      (''complete'', JBool True), (''createdAt'', JDate date10), (''updatedAt'', JDate date20)]"

definition cream_store :: store where
  "cream_store = \<lparr>docs = [cream_doc], faults = []\<rparr>"

definition milk_heap :: heap where
  "milk_heap = \<lparr>cells = [0 \<mapsto> milk_doc], next_addr = 1\<rparr>"

text \<open>
  A heap whose one record has no key, and a record whose key is an object with an own
  property \<open>toString\<close>.
\<close>

definition keyless_heap :: heap where
  "keyless_heap = \<lparr>cells = [0 \<mapsto> milk_body], next_addr = 1\<rparr>"

definition odd_key_doc :: doc where
  "odd_key_doc = [(''_id'', JObj [(''toString'', JNum ''1'')]), (''title'', JStr ''Buy milk'')]"

text \<open>
  A network that is down, a server that answers 500 with an error body, and one that
  answers 200 with a body that is not JSON.
\<close>

definition fetch_down :: "string \<Rightarrow> exn + fetch_response" where
  "fetch_down url = Inl (TypeError ''Failed to fetch'')"

definition fetch_500 :: "string \<Rightarrow> exn + fetch_response" where
  "fetch_500 url =
     Inr \<lparr>ok = False, http_status = JNum ''500'', json_result = Inr (error_body ''connection lost'')\<rparr>"

definition fetch_html :: "string \<Rightarrow> exn + fetch_response" where
  "fetch_html url =
     Inr \<lparr>ok = True, http_status = JNum ''200'',
          json_result = Inl (Error ''Unexpected token < in JSON at position 0'')\<rparr>"

text \<open>
  A client over an empty table that takes no new row: a select finds no row, \<open>.single()\<close>
  reports that as an error, an insert is refused, an update returns the rows it changed,
  a delete returns no data. Then a client that answers a select with the rows of a table
  (those whose \<open>complete\<close> is \<open>b\<close>, when the request asks for them) and refuses any other
  request, a row for it, and a client that fails every request.
\<close>

definition sb_empty_table :: "sb_request \<Rightarrow> sb_reply" where
  "sb_empty_table q =
     (case q of
        SbSelect f \<Rightarrow> SbReply (JArr []) None
      | SbSelectSingle i \<Rightarrow>
          SbReply JNull (Some ''JSON object requested, multiple (or no) rows returned'')
      | SbInsert row \<Rightarrow> SbReply JNull (Some ''permission denied for table tasks'')
      | SbUpdate i row \<Rightarrow> SbReply (JArr []) None
      | SbDelete i \<Rightarrow> SbReply JNull None)"

definition sb_listing :: "doc list \<Rightarrow> sb_request \<Rightarrow> sb_reply" where
  "sb_listing rows q =
     (case q of
        SbSelect None \<Rightarrow> SbReply (JArr (map JObj rows)) None
      | SbSelect (Some b) \<Rightarrow>
          SbReply (JArr (map JObj (filter (\<lambda>row. get_prop row ''complete'' = JBool b) rows))) None
      | _ \<Rightarrow> SbReply JNull (Some ''permission denied for table tasks''))"

definition milk_row :: doc where
  "milk_row =
     [(''id'', JNum ''1''), (''title'', JStr ''Buy milk''), (''description'', JStr []),
      (''complete'', JBool False)]"

definition sb_down :: "sb_request \<Rightarrow> sb_reply" where
  "sb_down q = SbReply JNull (Some ''fetch failed'')"

section \<open>Properties\<close>

subsection \<open>Scopes\<close>

lemma id_unbound_in_module_scope: "map_of module_scope ''id'' = None"
  by (simp add: module_scope_def)

lemma id_unbound_in_sb_module_scope: "map_of sb_module_scope ''id'' = None"
  by (simp add: sb_module_scope_def)

lemma not_found_message_bound:
  "not_found_message ((''id'', Value (JStr i)) # sc) = Inr (''Task with ID '' @ i @ '' not found'')"
  by (simp add: not_found_message_def lookup_identifier_def String_js_def)

lemma not_found_message_post_catch:
  "not_found_message post_catch_scope = Inl (ReferenceError ''id is not defined'')"
  by (simp add: not_found_message_def post_catch_scope_def lookup_identifier_def
      id_unbound_in_module_scope)

lemma not_found_message_sb_post:
  "not_found_message (sb_post_scope req_body dat) = Inl (ReferenceError ''id is not defined'')"
  by (simp add: not_found_message_def sb_post_scope_def lookup_identifier_def
      id_unbound_in_sb_module_scope)

subsection \<open>Objects\<close>

lemma get_prop_Cons: "get_prop ((k, v) # d) k' = (if k' = k then v else get_prop d k')"
  by (simp add: get_prop_def)

lemma get_prop_set_prop: "get_prop (set_prop k v d) k' = (if k' = k then v else get_prop d k')"
  by (induction d) (auto simp: get_prop_def)

lemma count_prop_absent: "k \<notin> fst ` set d \<Longrightarrow> count_prop k d = 0"
  by (induction d) (auto simp: count_prop_def)

lemma count_prop_set_prop: "distinct (map fst d) \<Longrightarrow> count_prop k (set_prop k v d) = 1"
proof (induction d)
  case Nil
  then show ?case by (simp add: count_prop_def)
next
  case (Cons p d)
  obtain k' v' where p: "p = (k', v')" by (cases p)
  show ?case
  proof (cases "k' = k")
    case True
    with Cons.prems p have "k \<notin> fst ` set d" by auto
    then have "count_prop k d = 0" by (rule count_prop_absent)
    with True p show ?thesis by (simp add: count_prop_def)
  next
    case False
    with Cons p show ?thesis by (simp add: count_prop_def)
  qed
qed

lemma js_or_undefined: "js_or JUndefined b = b"
  by (simp add: js_or_def)

text \<open>When \<open>toString\<close> returns, and what it throws otherwise.\<close>

lemma toString_js_returns:
  "toString_js v = Inr s \<longleftrightarrow> v \<noteq> JUndefined \<and> v \<noteq> JNull \<and> printable v \<and> s = js_text v"
  by (cases v) (auto simp: toString_js_def)

lemma toString_js_throws: "toString_js v = Inl e \<Longrightarrow> \<exists>m. e = TypeError m"
  by (cases v) (auto simp: toString_js_def split: if_splits)

text \<open>
  What the normalizer returns for an object carries exactly one \<open>id\<close>, a string: the
  responses of GET /api/tasks, GET /api/tasks/:id and PUT /api/tasks/:id are built from it.
\<close>

lemma transformTaskDocument_one_id:
  assumes "distinct (map fst d)" and "transformTaskDocument (JObj d) = Inr t"
  shows "\<exists>d' s. t = JObj d' \<and> count_prop ''id'' d' = 1 \<and> get_prop d' ''id'' = JStr s"
proof -
  from assms(2) obtain s where "t = JObj (set_prop ''id'' (JStr s) d)"
    by (auto simp: transformTaskDocument_def split: sum.splits)
  with count_prop_set_prop [OF assms(1), of "''id''" "JStr s"] show ?thesis
    by (auto simp: get_prop_set_prop)
qed

subsection \<open>Lists of documents\<close>

lemma find_list_ex: "List.find P xs = None \<longleftrightarrow> \<not> list_ex P xs"
  by (induction xs) auto

lemma find_Some_holds: "List.find P xs = Some d \<Longrightarrow> P d \<and> list_ex P xs"
  by (induction xs) (auto split: if_splits)

lemma find_append_new: "\<not> list_ex P xs \<Longrightarrow> P x \<Longrightarrow> List.find P (xs @ [x]) = Some x"
  by (induction xs) auto

lemma remove_first_length: "list_ex P xs \<Longrightarrow> Suc (length (remove_first P xs)) = length xs"
  by (induction xs) auto

lemma update_first_split:
  "List.find P xs = Some d \<Longrightarrow>
     \<exists>pre post. xs = pre @ d # post \<and> \<not> list_ex P pre \<and> update_first P f xs = pre @ f d # post"
proof (induction xs)
  case Nil
  then show ?case by simp
next
  case (Cons x xs)
  show ?case
  proof (cases "P x")
    case True
    with Cons.prems have "x = d" by simp
    with True have "x # xs = [] @ d # xs \<and> \<not> list_ex P []
        \<and> update_first P f (x # xs) = [] @ f d # xs"
      by simp
    then show ?thesis by blast
  next
    case False
    with Cons obtain pre post where
      "xs = pre @ d # post" "\<not> list_ex P pre" "update_first P f xs = pre @ f d # post"
      by auto
    with False have "x # xs = (x # pre) @ d # post \<and> \<not> list_ex P (x # pre)
        \<and> update_first P f (x # xs) = (x # pre) @ f d # post"
      by simp
    then show ?thesis by blast
  qed
qed

lemma map_try_list_all2: "map_try f xs = Inr ys \<longleftrightarrow> list_all2 (\<lambda>x y. f x = Inr y) xs ys"
proof (induction xs arbitrary: ys)
  case Nil
  then show ?case by auto
next
  case (Cons x xs)
  then show ?case
    by (cases ys) (auto simp: Cons.IH [symmetric] split: sum.splits)
qed

subsection \<open>The driver in memory\<close>

lemma memory_driver_sel [simp]:
  "ObjectId_new (memory_driver k) = mem_ObjectId_new"
  "find_array (memory_driver k) = mem_find_array"
  "findOne (memory_driver k) = mem_findOne"
  "insertOne (memory_driver k) = mem_insertOne k"
  "findOneAndUpdate (memory_driver k) = mem_findOneAndUpdate"
  "deleteOne (memory_driver k) = mem_deleteOne"
  by (simp_all add: memory_driver_def)

lemma milk_driver_sel [simp]:
  "ObjectId_new milk_driver = mem_ObjectId_new"
  "find_array milk_driver = mem_find_array"
  "findOne milk_driver = mem_findOne"
  "insertOne milk_driver = mem_insertOne milk_id"
  "findOneAndUpdate milk_driver = mem_findOneAndUpdate"
  "deleteOne milk_driver = mem_deleteOne"
  by (simp_all add: milk_driver_def)

lemma driver_call_runs: "calls_run (Suc n) st \<Longrightarrow> driver_call st f = f (after_calls 1 st)"
  by (cases st; cases "faults st")
    (auto simp: driver_call_def calls_run_def after_calls_def split: option.splits)

lemma after_calls_docs [simp]: "docs (after_calls n st) = docs st"
  by (simp add: after_calls_def)

lemma doc_matches_empty: "doc_matches [] d"
  by (simp add: doc_matches_def)

lemma key_matches_itself: "doc_matches [(''_id'', JObjectId k)] ((''_id'', JObjectId k) # d)"
  by (simp add: doc_matches_def get_prop_def)

lemma matching_key_text:
  assumes "doc_matches [(''_id'', JObjectId objectId)] d"
  shows "toString_js (get_prop d ''_id'') = Inr (js_text (get_prop d ''_id''))"
proof -
  from assms have "get_prop d ''_id'' = JObjectId objectId"
    by (simp add: doc_matches_def)
  then show ?thesis by (simp add: toString_js_def)
qed

lemma mem_find_array_cases:
  "mem_find_array q st = (st', out) \<Longrightarrow>
     st' = after_calls 1 st \<and>
     (if calls_run 1 st then out = Inr (filter (doc_matches q) (docs st))
      else (\<exists>m. out = Inl (Error m)))"
  by (cases "faults st")
    (auto simp: mem_find_array_def driver_call_def calls_run_def after_calls_def split: option.splits)

lemma mem_findOne_cases:
  "mem_findOne key st = (st', out) \<Longrightarrow>
     st' = after_calls 1 st \<and>
     (if calls_run 1 st
      then out = Inr (case List.find (doc_matches [(''_id'', key)]) (docs st) of
                        None \<Rightarrow> JNull | Some d \<Rightarrow> JObj d)
      else (\<exists>m. out = Inl (Error m)))"
  by (cases "faults st")
    (auto simp: mem_findOne_def driver_call_def calls_run_def after_calls_def split: option.splits)

lemma mem_insertOne_cases:
  "mem_insertOne new_id task st = (st', out) \<Longrightarrow>
     (if \<not> calls_run 1 st then st' = after_calls 1 st \<and> (\<exists>m. out = Inl (Error m))
      else if list_ex (doc_matches [(''_id'', JObjectId new_id)]) (docs st)
        then st' = after_calls 1 st \<and> out = Inl (Error ''E11000 duplicate key error'')
        else st' = (after_calls 1 st)\<lparr>docs := docs st @
                      [(''_id'', JObjectId new_id) # map (\<lambda>p. (fst p, bson (snd p))) task]\<rparr>
             \<and> out = Inr (JObjectId new_id))"
  by (cases "faults st")
    (auto simp: mem_insertOne_def driver_call_def calls_run_def after_calls_def split: option.splits)

lemma mem_findOneAndUpdate_runs:
  "calls_run (Suc n) st \<Longrightarrow>
     mem_findOneAndUpdate key changes st =
       (case List.find (doc_matches [(''_id'', key)]) (docs st) of
          None \<Rightarrow> (after_calls 1 st, Inr JNull)
        | Some d \<Rightarrow>
            ((after_calls 1 st)\<lparr>docs :=
                update_first (doc_matches [(''_id'', key)]) (apply_set changes) (docs st)\<rparr>,
             Inr (JObj (apply_set changes d))))"
  by (simp add: mem_findOneAndUpdate_def driver_call_runs [of n] after_calls_def split: option.splits)

lemma mem_deleteOne_cases:
  "mem_deleteOne key st = (st', out) \<Longrightarrow>
     (if \<not> calls_run 1 st then st' = after_calls 1 st \<and> (\<exists>m. out = Inl (Error m))
      else if list_ex (doc_matches [(''_id'', key)]) (docs st)
        then st' = (after_calls 1 st)\<lparr>docs :=
                      remove_first (doc_matches [(''_id'', key)]) (docs st)\<rparr>
             \<and> out = Inr 1
        else st' = after_calls 1 st \<and> out = Inr 0)"
  by (cases "faults st")
    (auto simp: mem_deleteOne_def driver_call_def calls_run_def after_calls_def find_list_ex
      dest: find_Some_holds split: option.splits)

subsection \<open>The sample requests, evaluated\<close>

lemma mem_ObjectId_new_milk: "mem_ObjectId_new milk_id = Inr milk_id"
  by (simp add: mem_ObjectId_new_def milk_id_def is_hex_digit_def lower_hex_def)

lemma mem_ObjectId_new_xyz:
  "mem_ObjectId_new ''xyz'' = Inl (BSONError
     ''input must be a 24 character hex string, 12 byte Uint8Array, or an integer'')"
  by (simp add: mem_ObjectId_new_def)

lemma milk_doc_has_key: "doc_matches [(''_id'', JObjectId milk_id)] milk_doc"
  by (simp add: doc_matches_def milk_doc_def get_prop_def)

lemma transform_milk: "transformTaskDocument (JObj milk_doc) = Inr (JObj milk_task)"
  by (simp add: transformTaskDocument_def toString_js_def get_prop_def milk_doc_def milk_task_def)

lemma post_milk:
  "post_tasks milk_driver empty_store date10 date11 milk_body
     = (milk_store, Inr (Response 201 (JObj milk_doc)))"
  by (simp add: post_tasks_def post_tasks_try_def post_task_def mem_insertOne_def mem_findOne_def
      driver_call_def doc_matches_def get_prop_def js_or_def bson_def Let_def
      empty_store_def milk_body_def milk_doc_def milk_store_def)

lemma get_milk:
  "get_task milk_driver milk_store milk_id = (milk_store, Inr (Response 200 (JObj milk_task)))"
  by (simp add: get_task_def get_task_try_def mem_ObjectId_new_milk mem_findOne_def
      driver_call_def milk_store_def milk_doc_has_key transform_milk)

lemma apply_set_put:
  "apply_set (put_set req_body now) d =
     set_prop ''updatedAt'' (JDate now)
       (set_prop ''complete'' (bson (get_prop req_body ''complete''))
         (set_prop ''description'' (bson (get_prop req_body ''description''))
           (set_prop ''title'' (bson (get_prop req_body ''title'')) d)))"
  by (simp add: apply_set_def put_set_def bson_def)

lemma transform_heap_milk:
  "transformTaskDocument_heap milk_heap (Some 0)
     = (\<lparr>cells = [0 \<mapsto> milk_doc, 1 \<mapsto> milk_task], next_addr = 2\<rparr>, Inr (Some 1))"
  by (simp add: transformTaskDocument_heap_def heap_new_def heap_props_def heap_assign_def
      milk_heap_def toString_js_def)
    (simp add: milk_doc_def milk_task_def get_prop_def)

subsection \<open>The id of a returned task\<close>

text \<open>
  The POST handler answers with what \<open>findOne\<close> gave it, as it is.
\<close>

lemma post_tasks_201:
  assumes "post_tasks D st created updated req_body = (st', Inr r)" and "status r = 201"
  shows "truthy (get_prop req_body ''title'')
       \<and> (\<exists>s1 insertedId.
             insertOne D (post_task req_body created updated) st = (s1, Inr insertedId)
             \<and> findOne D insertedId s1 = (st', Inr (body r)))"
proof -
  let ?task = "post_task req_body created updated"
  have title: "truthy (get_prop req_body ''title'')"
    using assms
    by (auto simp: post_tasks_def post_tasks_try_def not_found_message_post_catch split: if_splits)
  obtain s1 o1 where ins: "insertOne D ?task st = (s1, o1)"
    by (cases "insertOne D ?task st")
  from assms title ins obtain k where o1: "o1 = Inr k"
    by (cases o1) (auto simp: post_tasks_def post_tasks_try_def not_found_message_post_catch)
  obtain s2 o2 where fo: "findOne D k s1 = (s2, o2)"
    by (cases "findOne D k s1")
  from assms title ins o1 fo have "o2 = Inr (body r)" and "st' = s2"
    by (cases o2; auto simp: post_tasks_def post_tasks_try_def not_found_message_post_catch)+
  with title ins o1 fo show ?thesis by auto
qed

lemma post_tasks_runs:
  assumes "truthy (get_prop req_body ''title'')"
    and "insertOne D (post_task req_body created updated) st = (s1, Inr insertedId)"
    and "findOne D insertedId s1 = (st', Inr t)"
  shows "post_tasks D st created updated req_body = (st', Inr (Response 201 t))"
  using assms by (simp add: post_tasks_def post_tasks_try_def)

text \<open>
  C1. Every task the API returns on success has exactly one \<open>id\<close> field, a string.
  The POST handler of src/server/app.js does not keep this: it answers with the
  document as \<open>findOne\<close> returned it, which has the key under \<open>_id\<close> and no \<open>id\<close> at
  all, while the same record read back through GET /api/tasks/:id has passed through
  \<open>transformTaskDocument\<close> and carries \<open>id\<close> once, as a string.
\<close>

theorem post_response_without_id:
  "post_tasks milk_driver empty_store date10 date11 milk_body
     = (milk_store, Inr (Response 201 (JObj milk_doc)))
   \<and> count_prop ''id'' milk_doc = 0
   \<and> get_prop milk_doc ''id'' = JUndefined
   \<and> get_task milk_driver milk_store milk_id = (milk_store, Inr (Response 200 (JObj milk_task)))
   \<and> count_prop ''id'' milk_task = 1
   \<and> get_prop milk_task ''id'' = JStr milk_id"
  by (simp add: post_milk get_milk count_prop_def get_prop_def milk_doc_def milk_task_def)

subsection \<open>GET /api/tasks/:id with a malformed id\<close>

text \<open>
  C2, as amended. In src/server/app.js, with any driver, a GET /api/tasks/:id whose id
  \<open>ObjectId\<close> rejects is answered with status 500 and the error "Invalid ID format",
  without any call to the collection; an id that is well formed and for which \<open>findOne\<close>
  finds nothing is answered with status 404 and the error "Task with ID ... not found".
  The two errors are distinct, and only the second is a 4xx.
\<close>

theorem get_task_malformed_or_absent:
  "(ObjectId_new D id' = Inl e \<longrightarrow>
      get_task D st id' = (st, Inr (Response 500 (error_body ''Invalid ID format''))))
   \<and> (ObjectId_new D id' = Inr objectId \<and> findOne D (JObjectId objectId) st = (st', Inr JNull) \<longrightarrow>
      get_task D st id'
        = (st', Inr (Response 404 (error_body (''Task with ID '' @ id' @ '' not found'')))))
   \<and> ''Invalid ID format'' \<noteq> ''Task with ID '' @ id' @ '' not found''"
  by (auto simp: get_task_def get_task_try_def get_task_scope_def not_found_message_bound)

theorem get_task_malformed_or_absent_witness:
  "get_task milk_driver empty_store ''xyz''
     = (empty_store, Inr (Response 500 (error_body ''Invalid ID format'')))
   \<and> get_task milk_driver empty_store milk_id
       = (empty_store,
          Inr (Response 404 (error_body ''Task with ID 0123456789abcdef01234567 not found'')))"
proof -
  have malformed: "ObjectId_new milk_driver ''xyz'' = Inl (BSONError
     ''input must be a 24 character hex string, 12 byte Uint8Array, or an integer'')"
    by (simp add: mem_ObjectId_new_xyz)
  have well_formed: "ObjectId_new milk_driver milk_id = Inr milk_id"
    by (simp add: mem_ObjectId_new_milk)
  have absent: "findOne milk_driver (JObjectId milk_id) empty_store = (empty_store, Inr JNull)"
    by (simp add: mem_findOne_def driver_call_def empty_store_def)
  show ?thesis
    using get_task_malformed_or_absent [where D = milk_driver and id' = "''xyz''"
        and st = empty_store]
      get_task_malformed_or_absent [where D = milk_driver and id' = milk_id and st = empty_store
        and objectId = milk_id and st' = empty_store]
      malformed well_formed absent
    by (simp add: milk_id_def)
qed

text \<open>
  The claim as stated fails: the id \<open>xyz\<close> is malformed, and the answer is 500, not 404.
\<close>

theorem get_task_malformed_counterexample:
  "isl (ObjectId_new milk_driver ''xyz'')
   \<and> get_task milk_driver milk_store ''xyz''
       = (milk_store, Inr (Response 500 (error_body ''Invalid ID format'')))"
  by (simp add: get_task_def get_task_try_def mem_ObjectId_new_xyz)

subsection \<open>DELETE /api/tasks/:id\<close>

lemma delete_task_memory:
  assumes "delete_task (memory_driver k) ms id' = (ms', out)"
  shows "(out = Inr (Response 200 (message_body ''Task deleted successfully''))
            \<longleftrightarrow> Suc (length (docs ms')) = length (docs ms))
       \<and> (out \<noteq> Inr (Response 200 (message_body ''Task deleted successfully''))
            \<longrightarrow> docs ms' = docs ms)"
proof (cases "mem_ObjectId_new id'")
  case (Inl e)
  with assms show ?thesis
    by (auto simp: delete_task_def delete_task_try_def)
next
  case (Inr objectId)
  obtain s1 o1 where d: "mem_deleteOne (JObjectId objectId) ms = (s1, o1)"
    by (cases "mem_deleteOne (JObjectId objectId) ms")
  note c = mem_deleteOne_cases [OF d]
  show ?thesis
  proof (cases "calls_run 1 ms")
    case False
    with c assms Inr d show ?thesis
      by (auto simp: delete_task_def delete_task_try_def)
  next
    case True
    show ?thesis
    proof (cases "list_ex (doc_matches [(''_id'', JObjectId objectId)]) (docs ms)")
      case True
      with c assms Inr d \<open>calls_run 1 ms\<close> show ?thesis
        by (auto simp: delete_task_def delete_task_try_def remove_first_length)
    next
      case False
      with c assms Inr d \<open>calls_run 1 ms\<close> show ?thesis
        by (auto simp: delete_task_def delete_task_try_def delete_scope_def
            not_found_message_bound)
    qed
  qed
qed

text \<open>
  C3, as amended. In src/server/app.js, with any driver, a DELETE /api/tasks/:id is
  answered with 500 and the driver's message when the id is malformed (the collection is
  then not called) or when \<open>deleteOne\<close> rejects; with 404 when \<open>deleteOne\<close> reports a
  \<open>deletedCount\<close> of 0; and with 200 and the message "Task deleted successfully" when it
  reports any other count. So an answer of 200 is that message and is given only when
  the driver reports a deletion. Over the collection in memory, the answer is 200 exactly
  when one document has left the collection, and otherwise the documents are as before.
\<close>

theorem delete_task_outcomes:
  "(ObjectId_new D id' = Inl e \<longrightarrow>
      delete_task D st id' = (st, Inr (Response 500 (error_body (message e)))))
   \<and> (ObjectId_new D id' = Inr objectId \<and> deleteOne D (JObjectId objectId) st = (st', Inl e) \<longrightarrow>
      delete_task D st id' = (st', Inr (Response 500 (error_body (message e)))))
   \<and> (ObjectId_new D id' = Inr objectId \<and> deleteOne D (JObjectId objectId) st = (st', Inr 0) \<longrightarrow>
      delete_task D st id'
        = (st', Inr (Response 404 (error_body (''Task with ID '' @ id' @ '' not found'')))))
   \<and> (ObjectId_new D id' = Inr objectId \<and> deleteOne D (JObjectId objectId) st = (st', Inr n)
        \<and> n \<noteq> 0 \<longrightarrow>
      delete_task D st id'
        = (st', Inr (Response 200 (message_body ''Task deleted successfully''))))
   \<and> (delete_task D st id' = (st', Inr r) \<and> status r = 200 \<longrightarrow>
      r = Response 200 (message_body ''Task deleted successfully'')
      \<and> (\<exists>objectId n. ObjectId_new D id' = Inr objectId
            \<and> deleteOne D (JObjectId objectId) st = (st', Inr n) \<and> n \<noteq> 0))
   \<and> (delete_task (memory_driver k) ms id' = (ms', out) \<longrightarrow>
      (out = Inr (Response 200 (message_body ''Task deleted successfully''))
         \<longleftrightarrow> Suc (length (docs ms')) = length (docs ms))
      \<and> (out \<noteq> Inr (Response 200 (message_body ''Task deleted successfully''))
            \<longrightarrow> docs ms' = docs ms))"
proof -
  have only: "r = Response 200 (message_body ''Task deleted successfully'')
      \<and> (\<exists>objectId n. ObjectId_new D id' = Inr objectId
            \<and> deleteOne D (JObjectId objectId) st = (st', Inr n) \<and> n \<noteq> 0)"
    if "delete_task D st id' = (st', Inr r)" "status r = 200"
  proof (cases "ObjectId_new D id'")
    case (Inl e)
    with that show ?thesis
      by (auto simp: delete_task_def delete_task_try_def)
  next
    case (Inr objectId)
    obtain s1 o1 where d: "deleteOne D (JObjectId objectId) st = (s1, o1)"
      by (cases "deleteOne D (JObjectId objectId) st")
    with that Inr show ?thesis
      by (cases o1)
        (auto simp: delete_task_def delete_task_try_def delete_scope_def not_found_message_bound
          split: if_splits)
  qed
  have rest: "(ObjectId_new D id' = Inl e \<longrightarrow>
      delete_task D st id' = (st, Inr (Response 500 (error_body (message e)))))
   \<and> (ObjectId_new D id' = Inr objectId \<and> deleteOne D (JObjectId objectId) st = (st', Inl e) \<longrightarrow>
      delete_task D st id' = (st', Inr (Response 500 (error_body (message e)))))
   \<and> (ObjectId_new D id' = Inr objectId \<and> deleteOne D (JObjectId objectId) st = (st', Inr 0) \<longrightarrow>
      delete_task D st id'
        = (st', Inr (Response 404 (error_body (''Task with ID '' @ id' @ '' not found'')))))
   \<and> (ObjectId_new D id' = Inr objectId \<and> deleteOne D (JObjectId objectId) st = (st', Inr n)
        \<and> n \<noteq> 0 \<longrightarrow>
      delete_task D st id'
        = (st', Inr (Response 200 (message_body ''Task deleted successfully''))))"
    by (auto simp: delete_task_def delete_task_try_def delete_scope_def not_found_message_bound)
  from only rest delete_task_memory [of k ms id' ms' out] show ?thesis
    by blast
qed

theorem delete_task_outcomes_witness:
  "delete_task milk_driver milk_store milk_id
     = (empty_store, Inr (Response 200 (message_body ''Task deleted successfully'')))
   \<and> Suc (length (docs empty_store)) = length (docs milk_store)
   \<and> delete_task milk_driver empty_store milk_id
     = (empty_store,
        Inr (Response 404 (error_body ''Task with ID 0123456789abcdef01234567 not found'')))
   \<and> delete_task milk_driver milk_store ''xyz''
     = (milk_store, Inr (Response 500 (error_body
          ''input must be a 24 character hex string, 12 byte Uint8Array, or an integer'')))"
proof -
  have well_formed: "ObjectId_new milk_driver milk_id = Inr milk_id"
    by (simp add: mem_ObjectId_new_milk)
  have malformed: "ObjectId_new milk_driver ''xyz'' = Inl (BSONError
     ''input must be a 24 character hex string, 12 byte Uint8Array, or an integer'')"
    by (simp add: mem_ObjectId_new_xyz)
  have one: "deleteOne milk_driver (JObjectId milk_id) milk_store = (empty_store, Inr 1)"
    by (simp add: mem_deleteOne_def driver_call_def milk_store_def empty_store_def
        milk_doc_has_key)
  have none: "deleteOne milk_driver (JObjectId milk_id) empty_store = (empty_store, Inr 0)"
    by (simp add: mem_deleteOne_def driver_call_def empty_store_def)
  have a: "delete_task milk_driver milk_store milk_id
     = (empty_store, Inr (Response 200 (message_body ''Task deleted successfully'')))"
    using delete_task_outcomes [where D = milk_driver and id' = milk_id and st = milk_store
        and objectId = milk_id and st' = empty_store and n = 1]
      well_formed one
    by simp
  have b: "Suc (length (docs empty_store)) = length (docs milk_store)"
  proof -
    have "delete_task (memory_driver milk_id) milk_store milk_id
       = (empty_store, Inr (Response 200 (message_body ''Task deleted successfully'')))"
      using a by (simp add: milk_driver_def)
    from delete_task_outcomes [where k = milk_id and ms = milk_store and id' = milk_id
        and ms' = empty_store
        and out = "Inr (Response 200 (message_body ''Task deleted successfully''))",
        THEN conjunct2, THEN conjunct2, THEN conjunct2, THEN conjunct2, THEN conjunct2,
        THEN mp, OF this]
    show ?thesis by simp
  qed
  have c: "delete_task milk_driver empty_store milk_id
     = (empty_store,
        Inr (Response 404 (error_body ''Task with ID 0123456789abcdef01234567 not found'')))"
    using delete_task_outcomes [where D = milk_driver and id' = milk_id and st = empty_store
        and objectId = milk_id and st' = empty_store]
      well_formed none
    by (simp add: milk_id_def)
  have d: "delete_task milk_driver milk_store ''xyz''
     = (milk_store, Inr (Response 500 (error_body
          ''input must be a 24 character hex string, 12 byte Uint8Array, or an integer'')))"
    using delete_task_outcomes [where D = milk_driver and id' = "''xyz''" and st = milk_store]
      malformed
    by simp
  from a b c d show ?thesis by blast
qed

text \<open>
  The claim as stated fails. In src/server/app.js no document has the id \<open>xyz\<close>, nothing
  is deleted, and the answer is 500, not 404. In src/unnamed/part_000 a DELETE on an empty
  table is answered with 200 and the confirmation, though nothing was deleted: that
  handler looks at the reply's \<open>error\<close> only.
\<close>

theorem delete_task_counterexample:
  "isl (ObjectId_new milk_driver ''xyz'')
   \<and> delete_task milk_driver milk_store ''xyz''
       = (milk_store, Inr (Response 500 (error_body
            ''input must be a 24 character hex string, 12 byte Uint8Array, or an integer'')))
   \<and> sb_delete_task sb_empty_table ''1''
       = ([SbDelete ''1''], Inr (Response 200 (message_body ''Task deleted successfully'')))"
  by (simp add: delete_task_def delete_task_try_def mem_ObjectId_new_xyz sb_delete_task_def
      sb_empty_table_def)

subsection \<open>POST without a title\<close>

text \<open>
  C4. A POST /api/tasks whose body has no \<open>title\<close>, or an empty one (any falsy title),
  is answered with status 404, which is a 4xx, and the error "Title is required". In
  src/server/app.js, with any driver, the state of the database is returned as it was
  given: no driver call is made. In src/unnamed/part_000 no request is issued.
\<close>

theorem post_without_title:
  assumes "\<not> truthy (get_prop req_body ''title'')"
  shows "post_tasks D st created updated req_body
           = (st, Inr (Response 404 (error_body ''Title is required'')))
       \<and> sb_post_tasks supabase req_body
           = ([], Inr (Response 404 (error_body ''Title is required'')))
       \<and> 400 \<le> status (Response 404 (error_body ''Title is required''))
       \<and> status (Response 404 (error_body ''Title is required'')) < 500"
  using assms by (simp add: post_tasks_def post_tasks_try_def sb_post_tasks_def)

theorem post_without_title_witness:
  "post_tasks milk_driver milk_store date10 date11 [(''description'', JStr ''2%'')]
     = (milk_store, Inr (Response 404 (error_body ''Title is required'')))
   \<and> post_tasks milk_driver milk_store date10 date11 [(''title'', JStr [])]
     = (milk_store, Inr (Response 404 (error_body ''Title is required'')))
   \<and> sb_post_tasks sb_empty_table [(''title'', JStr [])]
     = ([], Inr (Response 404 (error_body ''Title is required'')))"
proof -
  have missing: "\<not> truthy (get_prop [(''description'', JStr ''2%'')] ''title'')"
    by (simp add: get_prop_def)
  have empty: "\<not> truthy (get_prop [(''title'', JStr [])] ''title'')"
    by (simp add: get_prop_def)
  show ?thesis
    using post_without_title [OF missing, where D = milk_driver and st = milk_store
        and created = date10 and updated = date11 and supabase = sb_empty_table]
      post_without_title [OF empty, where D = milk_driver and st = milk_store
        and created = date10 and updated = date11 and supabase = sb_empty_table]
    by simp
qed

subsection \<open>The filter of GET /api/tasks\<close>

lemma get_tasks_ok:
  assumes "get_tasks D st complete = (st', Inr (Response 200 (JArr ts)))"
  shows "\<exists>tasks. find_array D (tasks_query complete) st = (st', Inr tasks)
           \<and> list_all2 (\<lambda>d t. transformTaskDocument (JObj d) = Inr t) tasks ts"
proof -
  obtain s1 out where fd: "find_array D (tasks_query complete) st = (s1, out)"
    by (cases "find_array D (tasks_query complete) st")
  from assms fd obtain tasks where "out = Inr tasks" "s1 = st'"
    and "map_try (\<lambda>task. transformTaskDocument (JObj task)) tasks = Inr ts"
    by (auto simp: get_tasks_def get_tasks_try_def Let_def split: sum.splits)
  with fd show ?thesis by (auto simp: map_try_list_all2)
qed

lemma get_tasks_runs:
  assumes "find_array D (tasks_query complete) st = (st', Inr tasks)"
    and "list_all2 (\<lambda>d t. transformTaskDocument (JObj d) = Inr t) tasks ts"
  shows "get_tasks D st complete = (st', Inr (Response 200 (JArr ts)))"
proof -
  from assms(2) have "map_try (\<lambda>task. transformTaskDocument (JObj task)) tasks = Inr ts"
    by (simp add: map_try_list_all2)
  with assms(1) show ?thesis
    by (simp add: get_tasks_def get_tasks_try_def)
qed

lemma mem_find_array_all:
  assumes "mem_find_array [] ms = (ms', Inr tasks)"
  shows "tasks = docs ms"
  using mem_find_array_cases [OF assms] by (auto simp: doc_matches_empty split: if_splits)

text \<open>
  C5. In GET /api/tasks, when \<open>complete\<close> is absent the query is empty (the Supabase
  request has no \<open>eq\<close>); with the collection in memory the empty query yields every
  document. When \<open>complete\<close> is present the query is \<open>{ complete: b }\<close> where \<open>b\<close> is true
  exactly when the parameter is the string \<open>true\<close>: \<open>false\<close> and every other value give
  \<open>false\<close>. With any driver, the answer is 200 with an array exactly when \<open>find\<close>, called
  with that query, yields documents that all normalize, and the array lists them,
  normalized, in order. In src/unnamed/part_000, with any client, the handler issues that
  one request and answers 200 with exactly the data of the reply, or 500 with the reply's
  error; over a table that answers selects, the answer lists every row when \<open>complete\<close>
  is absent, and otherwise the rows whose \<open>complete\<close> is the filter value.
\<close>

theorem complete_filter:
  "(complete = JUndefined \<longrightarrow> tasks_query complete = [] \<and> sb_tasks_query complete = SbSelect None)
   \<and> (complete \<noteq> JUndefined \<longrightarrow>
        tasks_query complete = [(''complete'', JBool (complete = JStr ''true''))]
        \<and> sb_tasks_query complete = SbSelect (Some (complete = JStr ''true'')))
   \<and> (get_tasks D st complete = (st', Inr (Response 200 (JArr ts))) \<longrightarrow>
        (\<exists>tasks. find_array D (tasks_query complete) st = (st', Inr tasks)
           \<and> list_all2 (\<lambda>d t. transformTaskDocument (JObj d) = Inr t) tasks ts))
   \<and> (find_array D (tasks_query complete) st = (st', Inr tasks)
        \<and> list_all2 (\<lambda>d t. transformTaskDocument (JObj d) = Inr t) tasks ts \<longrightarrow>
        get_tasks D st complete = (st', Inr (Response 200 (JArr ts))))
   \<and> (mem_find_array (tasks_query JUndefined) ms = (ms', Inr found) \<longrightarrow> found = docs ms)
   \<and> fst (sb_get_tasks supabase complete) = [sb_tasks_query complete]
   \<and> (sb_error (supabase (sb_tasks_query complete)) = None \<longrightarrow>
        sb_get_tasks supabase complete
          = ([sb_tasks_query complete],
             Inr (Response 200 (sb_data (supabase (sb_tasks_query complete))))))
   \<and> (sb_error (supabase (sb_tasks_query complete)) = Some m \<longrightarrow>
        sb_get_tasks supabase complete
          = ([sb_tasks_query complete], Inr (Response 500 (error_body m))))
   \<and> sb_get_tasks (sb_listing rows) JUndefined
        = ([SbSelect None], Inr (Response 200 (JArr (map JObj rows))))
   \<and> (complete \<noteq> JUndefined \<longrightarrow>
        sb_get_tasks (sb_listing rows) complete
          = ([SbSelect (Some (complete = JStr ''true''))],
             Inr (Response 200 (JArr (map JObj
               (filter (\<lambda>row. get_prop row ''complete'' = JBool (complete = JStr ''true''))
                  rows))))))"
proof -
  have query: "(complete = JUndefined \<longrightarrow>
        tasks_query complete = [] \<and> sb_tasks_query complete = SbSelect None)
   \<and> (complete \<noteq> JUndefined \<longrightarrow>
        tasks_query complete = [(''complete'', JBool (complete = JStr ''true''))]
        \<and> sb_tasks_query complete = SbSelect (Some (complete = JStr ''true'')))"
    by (simp add: tasks_query_def sb_tasks_query_def)
  have every: "mem_find_array (tasks_query JUndefined) ms = (ms', Inr found) \<longrightarrow> found = docs ms"
    using mem_find_array_all [of ms ms' found] by (simp add: tasks_query_def)
  have sb: "fst (sb_get_tasks supabase complete) = [sb_tasks_query complete]"
    by (simp add: sb_get_tasks_def Let_def split: option.splits)
  have answer: "sb_error (supabase (sb_tasks_query complete)) = None \<longrightarrow>
        sb_get_tasks supabase complete
          = ([sb_tasks_query complete],
             Inr (Response 200 (sb_data (supabase (sb_tasks_query complete)))))"
    by (simp add: sb_get_tasks_def Let_def)
  have failure: "sb_error (supabase (sb_tasks_query complete)) = Some m \<longrightarrow>
        sb_get_tasks supabase complete
          = ([sb_tasks_query complete], Inr (Response 500 (error_body m)))"
    by (simp add: sb_get_tasks_def Let_def)
  have every_row: "sb_get_tasks (sb_listing rows) JUndefined
        = ([SbSelect None], Inr (Response 200 (JArr (map JObj rows))))"
    by (simp add: sb_get_tasks_def sb_tasks_query_def sb_listing_def)
  have filtered: "complete \<noteq> JUndefined \<longrightarrow>
        sb_get_tasks (sb_listing rows) complete
          = ([SbSelect (Some (complete = JStr ''true''))],
             Inr (Response 200 (JArr (map JObj
               (filter (\<lambda>row. get_prop row ''complete'' = JBool (complete = JStr ''true''))
                  rows)))))"
    by (simp add: sb_get_tasks_def sb_tasks_query_def sb_listing_def)
  have mongo: "(get_tasks D st complete = (st', Inr (Response 200 (JArr ts))) \<longrightarrow>
        (\<exists>tasks. find_array D (tasks_query complete) st = (st', Inr tasks)
           \<and> list_all2 (\<lambda>d t. transformTaskDocument (JObj d) = Inr t) tasks ts))
   \<and> (find_array D (tasks_query complete) st = (st', Inr tasks)
        \<and> list_all2 (\<lambda>d t. transformTaskDocument (JObj d) = Inr t) tasks ts \<longrightarrow>
        get_tasks D st complete = (st', Inr (Response 200 (JArr ts))))"
    using get_tasks_ok [of D st complete st' ts] get_tasks_runs [of D complete st st' tasks ts]
    by blast
  from query mongo every sb answer failure every_row filtered
  show ?thesis by (intro conjI) (erule conjunct1 conjunct2)+
qed

theorem complete_filter_witness:
  "tasks_query JUndefined = []
   \<and> tasks_query (JStr ''true'') = [(''complete'', JBool True)]
   \<and> tasks_query (JStr ''false'') = [(''complete'', JBool False)]
   \<and> sb_tasks_query (JStr ''yes'') = SbSelect (Some False)
   \<and> get_tasks milk_driver milk_store JUndefined
       = (milk_store, Inr (Response 200 (JArr [JObj milk_task])))
   \<and> get_tasks milk_driver milk_store (JStr ''true'') = (milk_store, Inr (Response 200 (JArr [])))
   \<and> [milk_doc] = docs milk_store
   \<and> sb_get_tasks (sb_listing [milk_row]) JUndefined
       = ([SbSelect None], Inr (Response 200 (JArr [JObj milk_row])))
   \<and> sb_get_tasks (sb_listing [milk_row]) (JStr ''true'')
       = ([SbSelect (Some True)], Inr (Response 200 (JArr [])))
   \<and> sb_get_tasks (sb_listing [milk_row]) (JStr ''false'')
       = ([SbSelect (Some False)], Inr (Response 200 (JArr [JObj milk_row])))
   \<and> sb_get_tasks sb_down JUndefined
       = ([SbSelect None], Inr (Response 500 (error_body ''fetch failed'')))"
proof -
  have absent: "tasks_query JUndefined = []"
    using complete_filter [where complete = JUndefined, THEN conjunct1] by simp
  have given: "tasks_query (JStr ''true'') = [(''complete'', JBool True)]"
    "tasks_query (JStr ''false'') = [(''complete'', JBool False)]"
    "sb_tasks_query (JStr ''yes'') = SbSelect (Some False)"
    using complete_filter [where complete = "JStr ''true''", THEN conjunct2, THEN conjunct1]
      complete_filter [where complete = "JStr ''false''", THEN conjunct2, THEN conjunct1]
      complete_filter [where complete = "JStr ''yes''", THEN conjunct2, THEN conjunct1]
    by simp_all
  have all_found: "find_array milk_driver (tasks_query JUndefined) milk_store
      = (milk_store, Inr [milk_doc])"
    by (simp add: absent mem_find_array_def driver_call_def milk_store_def doc_matches_empty)
  have none_found: "find_array milk_driver (tasks_query (JStr ''true'')) milk_store
      = (milk_store, Inr [])"
    by (simp add: given mem_find_array_def driver_call_def milk_store_def doc_matches_def
        milk_doc_def get_prop_def)
  have normal: "list_all2 (\<lambda>d t. transformTaskDocument (JObj d) = Inr t)
      [milk_doc] [JObj milk_task]"
    by (simp add: transform_milk)
  have every: "get_tasks milk_driver milk_store JUndefined
       = (milk_store, Inr (Response 200 (JArr [JObj milk_task])))"
    using complete_filter [where complete = JUndefined and D = milk_driver and st = milk_store
        and st' = milk_store and tasks = "[milk_doc]" and ts = "[JObj milk_task]",
        THEN conjunct2, THEN conjunct2, THEN conjunct2, THEN conjunct1]
      all_found normal
    by simp
  have none: "get_tasks milk_driver milk_store (JStr ''true'')
       = (milk_store, Inr (Response 200 (JArr [])))"
    using complete_filter [where complete = "JStr ''true''" and D = milk_driver
        and st = milk_store and st' = milk_store and tasks = "[]" and ts = "[]",
        THEN conjunct2, THEN conjunct2, THEN conjunct2, THEN conjunct1]
      none_found
    by simp
  have "mem_find_array (tasks_query JUndefined) milk_store = (milk_store, Inr [milk_doc])"
    using all_found by simp
  then have whole: "[milk_doc] = docs milk_store"
    by (rule complete_filter [where ms = milk_store and ms' = milk_store and found = "[milk_doc]",
        THEN conjunct2, THEN conjunct2, THEN conjunct2, THEN conjunct2, THEN conjunct1,
        THEN mp])
  have "sb_error (sb_listing [milk_row] (sb_tasks_query JUndefined)) = None"
    by (simp add: sb_listing_def sb_tasks_query_def)
  then have "sb_get_tasks (sb_listing [milk_row]) JUndefined
      = ([sb_tasks_query JUndefined],
         Inr (Response 200 (sb_data (sb_listing [milk_row] (sb_tasks_query JUndefined)))))"
    by (rule complete_filter [where supabase = "sb_listing [milk_row]" and complete = JUndefined,
        THEN conjunct2, THEN conjunct2, THEN conjunct2, THEN conjunct2, THEN conjunct2,
        THEN conjunct2, THEN conjunct1, THEN mp])
  then have sb_every: "sb_get_tasks (sb_listing [milk_row]) JUndefined
       = ([SbSelect None], Inr (Response 200 (JArr [JObj milk_row])))"
    by (simp add: sb_listing_def sb_tasks_query_def)
  have "JStr ''true'' \<noteq> JUndefined"
    by simp
  then have yes: "sb_get_tasks (sb_listing [milk_row]) (JStr ''true'')
          = ([SbSelect (Some (JStr ''true'' = JStr ''true''))],
             Inr (Response 200 (JArr (map JObj
               (filter (\<lambda>row. get_prop row ''complete'' = JBool (JStr ''true'' = JStr ''true''))
                  [milk_row])))))"
    by (rule complete_filter [where rows = "[milk_row]",
        THEN conjunct2, THEN conjunct2, THEN conjunct2, THEN conjunct2, THEN conjunct2,
        THEN conjunct2, THEN conjunct2, THEN conjunct2, THEN conjunct2, THEN mp])
  have "JStr ''false'' \<noteq> JUndefined"
    by simp
  then have no: "sb_get_tasks (sb_listing [milk_row]) (JStr ''false'')
          = ([SbSelect (Some (JStr ''false'' = JStr ''true''))],
             Inr (Response 200 (JArr (map JObj
               (filter (\<lambda>row. get_prop row ''complete'' = JBool (JStr ''false'' = JStr ''true''))
                  [milk_row])))))"
    by (rule complete_filter [where rows = "[milk_row]",
        THEN conjunct2, THEN conjunct2, THEN conjunct2, THEN conjunct2, THEN conjunct2,
        THEN conjunct2, THEN conjunct2, THEN conjunct2, THEN conjunct2, THEN mp])
  from yes no have sb_given: "sb_get_tasks (sb_listing [milk_row]) (JStr ''true'')
       = ([SbSelect (Some True)], Inr (Response 200 (JArr [])))"
    "sb_get_tasks (sb_listing [milk_row]) (JStr ''false'')
       = ([SbSelect (Some False)], Inr (Response 200 (JArr [JObj milk_row])))"
    by (simp_all add: milk_row_def get_prop_def)
  have "sb_error (sb_down (sb_tasks_query JUndefined)) = Some ''fetch failed''"
    by (simp add: sb_down_def)
  then have "sb_get_tasks sb_down JUndefined
      = ([sb_tasks_query JUndefined], Inr (Response 500 (error_body ''fetch failed'')))"
    by (rule complete_filter [where supabase = sb_down and complete = JUndefined,
        THEN conjunct2, THEN conjunct2, THEN conjunct2, THEN conjunct2, THEN conjunct2,
        THEN conjunct2, THEN conjunct2, THEN conjunct1, THEN mp])
  then have sb_fails: "sb_get_tasks sb_down JUndefined
       = ([SbSelect None], Inr (Response 500 (error_body ''fetch failed'')))"
    by (simp add: sb_tasks_query_def)
  from absent given every none whole sb_every sb_given sb_fails show ?thesis by simp
qed

subsection \<open>A successful POST\<close>

lemma stored_post_task:
  "truthy (get_prop req_body ''title'') \<Longrightarrow>
     map (\<lambda>p. (fst p, bson (snd p))) (post_task req_body created updated)
       = post_task req_body created updated"
  by (auto simp: post_task_def bson_def Let_def js_or_def)

lemma post_task_props:
  "get_prop (post_task req_body created updated) ''title'' = get_prop req_body ''title''
   \<and> get_prop (post_task req_body created updated) ''description''
       = js_or (get_prop req_body ''description'') (JStr [])
   \<and> get_prop (post_task req_body created updated) ''complete''
       = js_or (get_prop req_body ''complete'') (JBool False)"
  by (simp add: post_task_def Let_def get_prop_Cons)

lemma post_tasks_memory:
  assumes "post_tasks (memory_driver new_id) ms created updated req_body = (ms', Inr r)"
    and "status r = 201"
  shows "docs ms' = docs ms @ [(''_id'', JObjectId new_id) # post_task req_body created updated]
       \<and> r = Response 201 (JObj ((''_id'', JObjectId new_id) # post_task req_body created updated))"
proof -
  let ?task = "post_task req_body created updated"
  let ?P = "doc_matches [(''_id'', JObjectId new_id)]"
  from post_tasks_201 [OF assms] obtain s1 k where
    title: "truthy (get_prop req_body ''title'')"
    and ins: "mem_insertOne new_id ?task ms = (s1, Inr k)"
    and fo: "mem_findOne k s1 = (ms', Inr (body r))"
    by auto
  from mem_insertOne_cases [OF ins]
  have fresh: "\<not> list_ex ?P (docs ms)"
    and s1: "docs s1 = docs ms @ [(''_id'', JObjectId new_id) # ?task]"
    and k: "k = JObjectId new_id"
    using title by (auto simp: stored_post_task split: if_splits)
  have "List.find ?P (docs s1) = Some ((''_id'', JObjectId new_id) # ?task)"
    unfolding s1 using fresh key_matches_itself by (rule find_append_new)
  with mem_findOne_cases [OF fo] k
  have "body r = JObj ((''_id'', JObjectId new_id) # ?task)" and "docs ms' = docs s1"
    by (auto split: if_splits)
  with s1 assms(2) show ?thesis by (cases r) simp
qed

lemma sb_post_tasks_201:
  assumes "sb_post_tasks supabase req_body = (reqs, Inr r)" and "status r = 201"
  shows "reqs = [SbInsert (sb_post_row req_body)]
       \<and> sb_error (supabase (SbInsert (sb_post_row req_body))) = None
       \<and> index0 (sb_data (supabase (SbInsert (sb_post_row req_body)))) = Inr (body r)"
  using assms
  by (auto simp: sb_post_tasks_def Let_def not_found_message_sb_post
      split: if_splits option.splits sum.splits)

lemma sb_post_row_props:
  "get_prop (sb_post_row req_body) ''title'' = get_prop req_body ''title''
   \<and> get_prop (sb_post_row req_body) ''description'' = get_prop req_body ''description''
   \<and> get_prop (sb_post_row req_body) ''complete''
       = js_or (get_prop req_body ''complete'') (JBool False)"
  by (simp add: sb_post_row_def Let_def get_prop_Cons)

lemma sb_post_tasks_runs:
  assumes "truthy (get_prop req_body ''title'')"
    and "sb_error (supabase (SbInsert (sb_post_row req_body))) = None"
    and "index0 (sb_data (supabase (SbInsert (sb_post_row req_body)))) = Inr row"
  shows "sb_post_tasks supabase req_body
           = ([SbInsert (sb_post_row req_body)], Inr (Response 201 row))"
  using assms by (simp add: sb_post_tasks_def Let_def)

text \<open>
  What src/server/app.js does on a successful POST, with any driver: an answer of 201
  means the title was truthy, \<open>insertOne\<close> was handed the task and the answer is what
  \<open>findOne\<close> then found under the inserted key; and the task has the body's title, the
  body's description or the empty string, and the body's \<open>complete\<close> or \<open>false\<close>. Over
  the collection in memory that task, under the generated key, is the one document added.
\<close>

lemma post_tasks_created:
  "(post_tasks D st created updated req_body = (st', Inr r) \<and> status r = 201 \<longrightarrow>
      truthy (get_prop req_body ''title'')
      \<and> (\<exists>s1 insertedId.
            insertOne D (post_task req_body created updated) st = (s1, Inr insertedId)
            \<and> findOne D insertedId s1 = (st', Inr (body r))))
   \<and> (truthy (get_prop req_body ''title'')
        \<and> insertOne D (post_task req_body created updated) st = (s1, Inr insertedId)
        \<and> findOne D insertedId s1 = (st', Inr t) \<longrightarrow>
      post_tasks D st created updated req_body = (st', Inr (Response 201 t)))
   \<and> (get_prop req_body ''description'' = JUndefined \<longrightarrow>
         get_prop (post_task req_body created updated) ''description'' = JStr [])
   \<and> (get_prop req_body ''complete'' = JUndefined \<longrightarrow>
         get_prop (post_task req_body created updated) ''complete'' = JBool False)
   \<and> (post_tasks (memory_driver new_id) ms created updated req_body = (ms', Inr r)
        \<and> status r = 201 \<longrightarrow>
      docs ms' = docs ms @ [(''_id'', JObjectId new_id) # post_task req_body created updated]
      \<and> r = Response 201 (JObj ((''_id'', JObjectId new_id) # post_task req_body created updated)))"
proof -
  have task: "(get_prop req_body ''description'' = JUndefined \<longrightarrow>
         get_prop (post_task req_body created updated) ''description'' = JStr [])
   \<and> (get_prop req_body ''complete'' = JUndefined \<longrightarrow>
         get_prop (post_task req_body created updated) ''complete'' = JBool False)"
    using post_task_props [of req_body created updated] by (simp add: js_or_undefined)
  have created: "truthy (get_prop req_body ''title'')
      \<and> (\<exists>s1 insertedId.
            insertOne D (post_task req_body created updated) st = (s1, Inr insertedId)
            \<and> findOne D insertedId s1 = (st', Inr (body r)))"
    if "post_tasks D st created updated req_body = (st', Inr r)" "status r = 201"
    using post_tasks_201 [OF that] .
  have runs: "post_tasks D st created updated req_body = (st', Inr (Response 201 t))"
    if "truthy (get_prop req_body ''title'')"
      "insertOne D (post_task req_body created updated) st = (s1, Inr insertedId)"
      "findOne D insertedId s1 = (st', Inr t)"
    using post_tasks_runs [OF that] .
  have memory: "docs ms' = docs ms @ [(''_id'', JObjectId new_id) # post_task req_body created updated]
      \<and> r = Response 201 (JObj ((''_id'', JObjectId new_id) # post_task req_body created updated))"
    if "post_tasks (memory_driver new_id) ms created updated req_body = (ms', Inr r)"
      "status r = 201"
    using post_tasks_memory [OF that] .
  show ?thesis
    apply (intro conjI impI)
    using task created runs memory by blast+
qed

text \<open>
  What src/unnamed/part_000 does on a successful POST, with any client: it is answered
  with 201 exactly when the title is truthy, the reply to the one insert carries no error
  and \<open>data[0]\<close> can be read, and the answer is then that first row. The row it asks the
  table to insert has the body's title, the body's \<open>complete\<close> or \<open>false\<close>, and the
  description as the body gave it.
\<close>

lemma sb_post_tasks_created:
  "(sb_post_tasks supabase req_body = (reqs, Inr r) \<and> status r = 201 \<longrightarrow>
      truthy (get_prop req_body ''title'')
      \<and> reqs = [SbInsert (sb_post_row req_body)]
      \<and> sb_error (supabase (SbInsert (sb_post_row req_body))) = None
      \<and> index0 (sb_data (supabase (SbInsert (sb_post_row req_body)))) = Inr (body r))
   \<and> (truthy (get_prop req_body ''title'')
        \<and> sb_error (supabase (SbInsert (sb_post_row req_body))) = None
        \<and> index0 (sb_data (supabase (SbInsert (sb_post_row req_body)))) = Inr row \<longrightarrow>
      sb_post_tasks supabase req_body
        = ([SbInsert (sb_post_row req_body)], Inr (Response 201 row)))
   \<and> get_prop (sb_post_row req_body) ''title'' = get_prop req_body ''title''
   \<and> get_prop (sb_post_row req_body) ''description'' = get_prop req_body ''description''
   \<and> (get_prop req_body ''complete'' = JUndefined \<longrightarrow>
         get_prop (sb_post_row req_body) ''complete'' = JBool False)"
proof -
  have title: "truthy (get_prop req_body ''title'')"
    if "sb_post_tasks supabase req_body = (reqs, Inr r)" "status r = 201"
    using that by (auto simp: sb_post_tasks_def split: if_splits)
  have row: "get_prop (sb_post_row req_body) ''title'' = get_prop req_body ''title''
   \<and> get_prop (sb_post_row req_body) ''description'' = get_prop req_body ''description''
   \<and> (get_prop req_body ''complete'' = JUndefined \<longrightarrow>
         get_prop (sb_post_row req_body) ''complete'' = JBool False)"
    using sb_post_row_props [of req_body] by (simp add: js_or_undefined)
  show ?thesis
    apply (intro conjI impI)
    using title row sb_post_tasks_201 [of supabase req_body reqs r]
      sb_post_tasks_runs [of req_body supabase row]
    by blast+
qed


subsection \<open>PUT /api/tasks/:id\<close>

lemma put_task_memory:
  assumes valid: "mem_ObjectId_new id' = Inr objectId" and runs: "calls_run 1 ms"
    and found: "List.find (doc_matches [(''_id'', JObjectId objectId)]) (docs ms) = Some d"
  shows "\<exists>pre post updated.
         docs ms = pre @ d # post
         \<and> \<not> list_ex (doc_matches [(''_id'', JObjectId objectId)]) pre
         \<and> put_task (memory_driver k) ms now id' req_body
             = ((after_calls 1 ms)\<lparr>docs := pre @ updated # post\<rparr>,
                Inr (Response 200
                  (JObj (set_prop ''id'' (JStr (js_text (get_prop d ''_id''))) updated))))
         \<and> get_prop updated ''title'' = bson (get_prop req_body ''title'')
         \<and> get_prop updated ''description'' = bson (get_prop req_body ''description'')
         \<and> get_prop updated ''complete'' = bson (get_prop req_body ''complete'')
         \<and> get_prop updated ''updatedAt'' = JDate now
         \<and> (\<forall>f. f \<notin> set [''title'', ''description'', ''complete'', ''updatedAt''] \<longrightarrow>
               get_prop updated f = get_prop d f)"
proof -
  let ?P = "doc_matches [(''_id'', JObjectId objectId)]"
  let ?u = "apply_set (put_set req_body now) d"
  from update_first_split [OF found, of "apply_set (put_set req_body now)"]
  obtain pre post where parts: "docs ms = pre @ d # post" "\<not> list_ex ?P pre"
    "update_first ?P (apply_set (put_set req_body now)) (docs ms) = pre @ ?u # post"
    by blast
  have key: "get_prop ?u ''_id'' = get_prop d ''_id''"
    by (simp add: apply_set_put get_prop_set_prop)
  from find_Some_holds [OF found] have "?P d" by simp
  then have str: "toString_js (get_prop d ''_id'') = Inr (js_text (get_prop d ''_id''))"
    by (rule matching_key_text)
  have tr: "transformTaskDocument (JObj ?u)
             = Inr (JObj (set_prop ''id'' (JStr (js_text (get_prop d ''_id''))) ?u))"
    by (simp add: transformTaskDocument_def key str)
  have resp: "put_task (memory_driver k) ms now id' req_body
           = ((after_calls 1 ms)\<lparr>docs := pre @ ?u # post\<rparr>,
              Inr (Response 200
                (JObj (set_prop ''id'' (JStr (js_text (get_prop d ''_id''))) ?u))))"
    using valid runs found parts(3) tr
    by (simp add: put_task_def put_task_try_def mem_findOneAndUpdate_runs)
  have changed: "get_prop ?u ''title'' = bson (get_prop req_body ''title'')"
    "get_prop ?u ''description'' = bson (get_prop req_body ''description'')"
    "get_prop ?u ''complete'' = bson (get_prop req_body ''complete'')"
    "get_prop ?u ''updatedAt'' = JDate now"
    by (simp_all add: apply_set_put get_prop_set_prop)
  have others: "\<forall>f. f \<notin> set [''title'', ''description'', ''complete'', ''updatedAt''] \<longrightarrow>
             get_prop ?u f = get_prop d f"
    by (simp add: apply_set_put get_prop_set_prop)
  from parts(1,2) resp changed others show ?thesis by blast
qed

text \<open>
  C7, as amended. In src/server/app.js, with any driver, a PUT /api/tasks/:id with a
  well-formed id calls \<open>findOneAndUpdate\<close> with a \<open>$set\<close> of exactly the body's \<open>title\<close>,
  \<open>description\<close> and \<open>complete\<close> (whatever they are, \<open>undefined\<close> for a field the body
  leaves out) and \<open>updatedAt\<close> at the time of the request; it is answered with 404 when
  that call finds no document and with 200 and the updated document, normalized, when it
  returns one. A malformed id is answered with 500 and the driver's message, and the
  collection is not called. Over the collection in memory, the first document with that
  key changes and no other: its \<open>title\<close>, \<open>description\<close> and \<open>complete\<close> become the body's
  values (\<open>null\<close> for a field the body leaves out), its \<open>updatedAt\<close> the time of the
  request, and every other field stays.
\<close>

theorem put_task_outcomes:
  "(ObjectId_new D id' = Inl e \<longrightarrow>
      put_task D st now id' req_body = (st, Inr (Response 500 (error_body (message e)))))
   \<and> (ObjectId_new D id' = Inr objectId
        \<and> findOneAndUpdate D (JObjectId objectId) (put_set req_body now) st = (st', Inr JNull) \<longrightarrow>
      put_task D st now id' req_body
        = (st', Inr (Response 404 (error_body (''Task with ID '' @ id' @ '' not found'')))))
   \<and> (ObjectId_new D id' = Inr objectId
        \<and> findOneAndUpdate D (JObjectId objectId) (put_set req_body now) st
            = (st', Inr (JObj updatedTask))
        \<and> transformTaskDocument (JObj updatedTask) = Inr t \<longrightarrow>
      put_task D st now id' req_body = (st', Inr (Response 200 t)))
   \<and> put_set req_body now
       = [(''title'', get_prop req_body ''title''),
          (''description'', get_prop req_body ''description''),
          (''complete'', get_prop req_body ''complete''),
          (''updatedAt'', JDate now)]
   \<and> (mem_ObjectId_new id' = Inr objectId \<and> calls_run 1 ms
        \<and> List.find (doc_matches [(''_id'', JObjectId objectId)]) (docs ms) = Some d \<longrightarrow>
      (\<exists>pre post updated.
         docs ms = pre @ d # post
         \<and> \<not> list_ex (doc_matches [(''_id'', JObjectId objectId)]) pre
         \<and> put_task (memory_driver k) ms now id' req_body
             = ((after_calls 1 ms)\<lparr>docs := pre @ updated # post\<rparr>,
                Inr (Response 200
                  (JObj (set_prop ''id'' (JStr (js_text (get_prop d ''_id''))) updated))))
         \<and> get_prop updated ''title'' = bson (get_prop req_body ''title'')
         \<and> get_prop updated ''description'' = bson (get_prop req_body ''description'')
         \<and> get_prop updated ''complete'' = bson (get_prop req_body ''complete'')
         \<and> get_prop updated ''updatedAt'' = JDate now
         \<and> (\<forall>f. f \<notin> set [''title'', ''description'', ''complete'', ''updatedAt''] \<longrightarrow>
               get_prop updated f = get_prop d f)))"
proof -
  have general: "(ObjectId_new D id' = Inl e \<longrightarrow>
      put_task D st now id' req_body = (st, Inr (Response 500 (error_body (message e)))))
   \<and> (ObjectId_new D id' = Inr objectId
        \<and> findOneAndUpdate D (JObjectId objectId) (put_set req_body now) st = (st', Inr JNull) \<longrightarrow>
      put_task D st now id' req_body
        = (st', Inr (Response 404 (error_body (''Task with ID '' @ id' @ '' not found'')))))
   \<and> (ObjectId_new D id' = Inr objectId
        \<and> findOneAndUpdate D (JObjectId objectId) (put_set req_body now) st
            = (st', Inr (JObj updatedTask))
        \<and> transformTaskDocument (JObj updatedTask) = Inr t \<longrightarrow>
      put_task D st now id' req_body = (st', Inr (Response 200 t)))"
    by (simp add: put_task_def put_task_try_def put_scope_def not_found_message_bound)
  have changes: "put_set req_body now
       = [(''title'', get_prop req_body ''title''),
          (''description'', get_prop req_body ''description''),
          (''complete'', get_prop req_body ''complete''),
          (''updatedAt'', JDate now)]"
    by (simp add: put_set_def)
  show ?thesis
    apply (intro conjI impI)
    using general changes put_task_memory [of id' objectId ms d k now req_body] by blast+
qed

theorem put_task_outcomes_witness:
  "put_task milk_driver milk_store date20 milk_id cream_body
     = (cream_store, Inr (Response 200 (JObj (cream_doc @ [(''id'', JStr milk_id)]))))
   \<and> put_task milk_driver empty_store date20 milk_id cream_body
     = (empty_store,
        Inr (Response 404 (error_body ''Task with ID 0123456789abcdef01234567 not found'')))
   \<and> put_task milk_driver milk_store date20 ''xyz'' cream_body
     = (milk_store, Inr (Response 500 (error_body
          ''input must be a 24 character hex string, 12 byte Uint8Array, or an integer'')))
   \<and> get_prop cream_doc ''title'' = get_prop cream_body ''title''
   \<and> get_prop cream_doc ''description'' = get_prop cream_body ''description''
   \<and> get_prop cream_doc ''complete'' = get_prop cream_body ''complete''
   \<and> get_prop cream_doc ''updatedAt'' = JDate date20
   \<and> get_prop cream_doc ''createdAt'' = get_prop milk_doc ''createdAt''
   \<and> (\<exists>pre post updated.
         docs milk_store = pre @ milk_doc # post
         \<and> fst (put_task (memory_driver milk_id) milk_store date20 milk_id cream_body)
             = (after_calls 1 milk_store)\<lparr>docs := pre @ updated # post\<rparr>
         \<and> get_prop updated ''title'' = JStr ''Buy milk''
         \<and> get_prop updated ''description'' = JStr ''2%''
         \<and> get_prop updated ''complete'' = JBool True
         \<and> get_prop updated ''updatedAt'' = JDate date20)"
proof -
  have well_formed: "ObjectId_new milk_driver milk_id = Inr milk_id"
    by (simp add: mem_ObjectId_new_milk)
  have malformed: "ObjectId_new milk_driver ''xyz'' = Inl (BSONError
     ''input must be a 24 character hex string, 12 byte Uint8Array, or an integer'')"
    by (simp add: mem_ObjectId_new_xyz)
  have updated: "findOneAndUpdate milk_driver (JObjectId milk_id) (put_set cream_body date20) milk_store
      = (cream_store, Inr (JObj cream_doc))"
    by (simp add: mem_findOneAndUpdate_def driver_call_def milk_store_def milk_doc_has_key
        apply_set_put cream_store_def)
      (simp add: milk_doc_def cream_body_def cream_doc_def get_prop_def bson_def)
  have normal: "transformTaskDocument (JObj cream_doc)
      = Inr (JObj (cream_doc @ [(''id'', JStr milk_id)]))"
    by (simp add: transformTaskDocument_def toString_js_def get_prop_def cream_doc_def)
  have no_match: "findOneAndUpdate milk_driver (JObjectId milk_id) (put_set cream_body date20) empty_store
      = (empty_store, Inr JNull)"
    by (simp add: mem_findOneAndUpdate_def driver_call_def empty_store_def)
  have a: "put_task milk_driver milk_store date20 milk_id cream_body
     = (cream_store, Inr (Response 200 (JObj (cream_doc @ [(''id'', JStr milk_id)]))))"
    using put_task_outcomes [where D = milk_driver and id' = milk_id and st = milk_store
        and now = date20 and req_body = cream_body and objectId = milk_id and st' = cream_store
        and updatedTask = cream_doc and t = "JObj (cream_doc @ [(''id'', JStr milk_id)])",
        THEN conjunct2, THEN conjunct2, THEN conjunct1]
      well_formed updated normal
    by simp
  have "put_task milk_driver empty_store date20 milk_id cream_body
     = (empty_store, Inr (Response 404 (error_body (''Task with ID '' @ milk_id @ '' not found''))))"
    by (rule put_task_outcomes [where D = milk_driver and id' = milk_id and st = empty_store
        and now = date20 and req_body = cream_body and objectId = milk_id and st' = empty_store,
        THEN conjunct2, THEN conjunct1, THEN mp, OF conjI, OF well_formed no_match])
  then have b: "put_task milk_driver empty_store date20 milk_id cream_body
     = (empty_store,
        Inr (Response 404 (error_body ''Task with ID 0123456789abcdef01234567 not found'')))"
    by (simp add: milk_id_def)
  have c: "put_task milk_driver milk_store date20 ''xyz'' cream_body
     = (milk_store, Inr (Response 500 (error_body
          ''input must be a 24 character hex string, 12 byte Uint8Array, or an integer'')))"
    using put_task_outcomes [where D = milk_driver and id' = "''xyz''" and st = milk_store
        and now = date20 and req_body = cream_body, THEN conjunct1]
      malformed
    by simp
  have d: "get_prop cream_doc ''title'' = get_prop cream_body ''title''"
    "get_prop cream_doc ''description'' = get_prop cream_body ''description''"
    "get_prop cream_doc ''complete'' = get_prop cream_body ''complete''"
    "get_prop cream_doc ''updatedAt'' = JDate date20"
    "get_prop cream_doc ''createdAt'' = get_prop milk_doc ''createdAt''"
    by (simp_all add: cream_doc_def cream_body_def milk_doc_def get_prop_def)
  have runs: "calls_run 1 milk_store"
    by (simp add: calls_run_def milk_store_def)
  have present: "List.find (doc_matches [(''_id'', JObjectId milk_id)]) (docs milk_store)
      = Some milk_doc"
    by (simp add: milk_store_def milk_doc_has_key)
  from put_task_outcomes [where id' = milk_id and objectId = milk_id and ms = milk_store
      and d = milk_doc and k = milk_id and now = date20 and req_body = cream_body,
      THEN conjunct2, THEN conjunct2, THEN conjunct2, THEN conjunct2, THEN mp,
      OF conjI, OF mem_ObjectId_new_milk conjI, OF runs present]
  obtain pre post updated where u: "docs milk_store = pre @ milk_doc # post"
    "put_task (memory_driver milk_id) milk_store date20 milk_id cream_body
       = ((after_calls 1 milk_store)\<lparr>docs := pre @ updated # post\<rparr>,
          Inr (Response 200
            (JObj (set_prop ''id'' (JStr (js_text (get_prop milk_doc ''_id''))) updated))))"
    "get_prop updated ''title'' = bson (get_prop cream_body ''title'')"
    "get_prop updated ''description'' = bson (get_prop cream_body ''description'')"
    "get_prop updated ''complete'' = bson (get_prop cream_body ''complete'')"
    "get_prop updated ''updatedAt'' = JDate date20"
    by blast
  from u have "docs milk_store = pre @ milk_doc # post
         \<and> fst (put_task (memory_driver milk_id) milk_store date20 milk_id cream_body)
             = (after_calls 1 milk_store)\<lparr>docs := pre @ updated # post\<rparr>
         \<and> get_prop updated ''title'' = JStr ''Buy milk''
         \<and> get_prop updated ''description'' = JStr ''2%''
         \<and> get_prop updated ''complete'' = JBool True
         \<and> get_prop updated ''updatedAt'' = JDate date20"
    by (simp add: cream_body_def get_prop_def bson_def)
  then have e: "\<exists>pre post updated.
         docs milk_store = pre @ milk_doc # post
         \<and> fst (put_task (memory_driver milk_id) milk_store date20 milk_id cream_body)
             = (after_calls 1 milk_store)\<lparr>docs := pre @ updated # post\<rparr>
         \<and> get_prop updated ''title'' = JStr ''Buy milk''
         \<and> get_prop updated ''description'' = JStr ''2%''
         \<and> get_prop updated ''complete'' = JBool True
         \<and> get_prop updated ''updatedAt'' = JDate date20"
    by blast
  from a b c d e show ?thesis by simp
qed

text \<open>
  The claim as stated fails. In src/server/app.js the malformed id \<open>xyz\<close> is answered
  with 500, not 404. In src/unnamed/part_000 a PUT on an empty table, where no id exists,
  is answered with 200 and no task.
\<close>

theorem put_task_counterexample:
  "isl (ObjectId_new milk_driver ''xyz'')
   \<and> put_task milk_driver milk_store date20 ''xyz'' cream_body
       = (milk_store, Inr (Response 500 (error_body
            ''input must be a 24 character hex string, 12 byte Uint8Array, or an integer'')))
   \<and> snd (sb_put_task sb_empty_table ''1'' cream_body) = Inr (Response 200 JUndefined)"
  by (simp add: put_task_def put_task_try_def mem_ObjectId_new_xyz sb_put_task_def
      sb_empty_table_def Let_def)

subsection \<open>The client's list loader\<close>

text \<open>
  C8. \<open>loadTasks\<close> always resolves, never rejects. Whenever anything inside its \<open>try\<close>
  throws, it resolves to the empty array: in particular when the URL cannot be read, when
  \<open>fetch\<close> rejects (a network error), when the response is not ok (a status outside 2xx,
  whatever its body), and when the body of the response is not JSON.
\<close>

theorem loadTasks_never_rejects:
  "(\<exists>v. loadTasks complete fetch = Inr v)
   \<and> (loadTasks_try complete fetch = Inl e \<longrightarrow> loadTasks complete fetch = Inr (JArr []))
   \<and> (complete = Inl e \<longrightarrow> loadTasks complete fetch = Inr (JArr []))
   \<and> (fetch (loadTasks_endpoint c) = Inl e \<longrightarrow> loadTasks (Inr c) fetch = Inr (JArr []))
   \<and> (fetch (loadTasks_endpoint c) = Inr response \<and> \<not> ok response \<longrightarrow>
        loadTasks (Inr c) fetch = Inr (JArr []))
   \<and> (fetch (loadTasks_endpoint c) = Inr response \<and> json_result response = Inl e \<longrightarrow>
        loadTasks (Inr c) fetch = Inr (JArr []))"
proof -
  have total: "\<exists>v. loadTasks complete fetch = Inr v"
    by (cases "loadTasks_try complete fetch") (simp_all add: loadTasks_def)
  have not_ok: "loadTasks (Inr c) fetch = Inr (JArr [])"
    if "fetch (loadTasks_endpoint c) = Inr response" "\<not> ok response"
    using that
    by (simp add: loadTasks_def loadTasks_try_def Let_def split: sum.splits)
  have parse: "loadTasks (Inr c) fetch = Inr (JArr [])"
    if "fetch (loadTasks_endpoint c) = Inr response" "json_result response = Inl e"
    using that not_ok
    by (cases "ok response") (simp_all add: loadTasks_def loadTasks_try_def Let_def)
  from total not_ok parse show ?thesis
    by (auto simp: loadTasks_def loadTasks_try_def)
qed

theorem loadTasks_never_rejects_witness:
  "loadTasks (Inr None) fetch_down = Inr (JArr [])
   \<and> loadTasks (Inr (Some ''true'')) fetch_500 = Inr (JArr [])
   \<and> loadTasks (Inr None) fetch_html = Inr (JArr [])
   \<and> loadTasks (Inl (TypeError ''Invalid URL'')) fetch_down = Inr (JArr [])"
proof -
  have down: "fetch_down (loadTasks_endpoint None) = Inl (TypeError ''Failed to fetch'')"
    by (simp add: fetch_down_def)
  have refused: "fetch_500 (loadTasks_endpoint (Some ''true''))
      = Inr \<lparr>ok = False, http_status = JNum ''500'', json_result = Inr (error_body ''connection lost'')\<rparr>"
    by (simp add: fetch_500_def)
  have html: "fetch_html (loadTasks_endpoint None)
      = Inr \<lparr>ok = True, http_status = JNum ''200'',
          json_result = Inl (Error ''Unexpected token < in JSON at position 0'')\<rparr>"
    by (simp add: fetch_html_def)
  have a: "loadTasks (Inr None) fetch_down = Inr (JArr [])"
    using loadTasks_never_rejects [of "Inr None" fetch_down "TypeError ''Failed to fetch''" None]
      down
    by blast
  have b: "loadTasks (Inr (Some ''true'')) fetch_500 = Inr (JArr [])"
    using loadTasks_never_rejects [of "Inr (Some ''true'')" fetch_500 _ "Some ''true''"
        "\<lparr>ok = False, http_status = JNum ''500'', json_result = Inr (error_body ''connection lost'')\<rparr>"]
      refused
    by simp
  have c: "loadTasks (Inr None) fetch_html = Inr (JArr [])"
    using loadTasks_never_rejects [of "Inr None" fetch_html
        "Error ''Unexpected token < in JSON at position 0''" None
        "\<lparr>ok = True, http_status = JNum ''200'',
          json_result = Inl (Error ''Unexpected token < in JSON at position 0'')\<rparr>"]
      html
    by simp
  have d: "loadTasks (Inl (TypeError ''Invalid URL'')) fetch_down = Inr (JArr [])"
    using loadTasks_never_rejects [of "Inl (TypeError ''Invalid URL'')" fetch_down
        "TypeError ''Invalid URL''"]
    by blast
  from a b c d show ?thesis by blast
qed

subsection \<open>The normalizer leaves its input alone\<close>

lemma transform_heap_frame:
  assumes "a < next_addr h" and "transformTaskDocument_heap h (Some a) = (h', out)"
  shows "(\<forall>b. b < next_addr h \<longrightarrow> cells h' b = cells h b) \<and> heap_props h' a = heap_props h a"
  using assms
  by (auto simp: transformTaskDocument_heap_def heap_new_def heap_assign_def heap_props_def
      split: sum.splits)

lemma transform_heap_result:
  assumes "a < next_addr h" and "transformTaskDocument_heap h (Some a) = (h', out)"
  shows "case toString_js (get_prop (heap_props h a) ''_id'') of
           Inl e \<Rightarrow> out = Inl e
         | Inr s \<Rightarrow> out = Inr (Some (next_addr h))
                    \<and> heap_props h' (next_addr h) = set_prop ''id'' (JStr s) (heap_props h a)"
  using assms
  by (auto simp: transformTaskDocument_heap_def heap_new_def heap_assign_def heap_props_def
      split: sum.splits)

lemma transform_record:
  "transformTaskDocument (JObj d) =
     (case toString_js (get_prop d ''_id'') of
        Inl e \<Rightarrow> Inl e
      | Inr s \<Rightarrow> Inr (JObj (set_prop ''id'' (JStr s) d)))"
  by (simp add: transformTaskDocument_def)

text \<open>
  C9, as amended. \<open>transformTaskDocument\<close> returns \<open>null\<close> for \<open>null\<close>, and the heap is
  then as before. Given the address of a record, it changes no object that existed before
  the call, the record included, in any field, whether it returns or throws. It returns
  exactly when \<open>doc._id.toString()\<close> does, that is when the record's \<open>_id\<close> is neither
  \<open>undefined\<close> nor \<open>null\<close> and can be turned into text, as the key of a stored document
  can; what it returns is then the address of an object allocated by the call, different
  from the record's, holding the record's fields and \<open>id\<close>. For any other record it
  throws a \<open>TypeError\<close> and returns nothing.
\<close>

theorem transformTaskDocument_frame:
  "transformTaskDocument JNull = Inr JNull
   \<and> transformTaskDocument_heap h None = (h, Inr None)
   \<and> (a < next_addr h \<and> transformTaskDocument_heap h (Some a) = (h', out) \<longrightarrow>
        (\<forall>b. b < next_addr h \<longrightarrow> cells h' b = cells h b)
        \<and> heap_props h' a = heap_props h a
        \<and> (\<forall>t. out = Inr t \<longrightarrow>
              t = Some (next_addr h) \<and> t \<noteq> Some a
              \<and> transformTaskDocument (JObj (heap_props h a))
                  = Inr (JObj (heap_props h' (next_addr h))))
        \<and> (\<forall>e. out = Inl e \<longrightarrow> transformTaskDocument (JObj (heap_props h a)) = Inl e)
        \<and> (out = Inr (Some (next_addr h)) \<longleftrightarrow>
              get_prop (heap_props h a) ''_id'' \<noteq> JUndefined
              \<and> get_prop (heap_props h a) ''_id'' \<noteq> JNull
              \<and> printable (get_prop (heap_props h a) ''_id''))
        \<and> (out \<noteq> Inr (Some (next_addr h)) \<longrightarrow> (\<exists>m. out = Inl (TypeError m))))"
proof -
  have on_null: "transformTaskDocument JNull = Inr JNull"
    by (simp add: transformTaskDocument_def)
  have on_none: "transformTaskDocument_heap h None = (h, Inr None)"
    by (simp add: transformTaskDocument_heap_def)
  have on_record: "(\<forall>b. b < next_addr h \<longrightarrow> cells h' b = cells h b)
        \<and> heap_props h' a = heap_props h a
        \<and> (\<forall>t. out = Inr t \<longrightarrow>
              t = Some (next_addr h) \<and> t \<noteq> Some a
              \<and> transformTaskDocument (JObj (heap_props h a))
                  = Inr (JObj (heap_props h' (next_addr h))))
        \<and> (\<forall>e. out = Inl e \<longrightarrow> transformTaskDocument (JObj (heap_props h a)) = Inl e)
        \<and> (out = Inr (Some (next_addr h)) \<longleftrightarrow>
              get_prop (heap_props h a) ''_id'' \<noteq> JUndefined
              \<and> get_prop (heap_props h a) ''_id'' \<noteq> JNull
              \<and> printable (get_prop (heap_props h a) ''_id''))
        \<and> (out \<noteq> Inr (Some (next_addr h)) \<longrightarrow> (\<exists>m. out = Inl (TypeError m)))"
    if allocated: "a < next_addr h" and run: "transformTaskDocument_heap h (Some a) = (h', out)"
  proof (cases "toString_js (get_prop (heap_props h a) ''_id'')")
    case (Inl e)
    with transform_heap_result [OF allocated run] have out: "out = Inl e" by simp
    from toString_js_throws [OF Inl] obtain m where "e = TypeError m" ..
    moreover from Inl have "\<not> (get_prop (heap_props h a) ''_id'' \<noteq> JUndefined
              \<and> get_prop (heap_props h a) ''_id'' \<noteq> JNull
              \<and> printable (get_prop (heap_props h a) ''_id''))"
      using toString_js_returns [of "get_prop (heap_props h a) ''_id''"
          "js_text (get_prop (heap_props h a) ''_id'')"]
      by auto
    ultimately show ?thesis
      using transform_heap_frame [OF allocated run] out Inl
      by (simp add: transform_record)
  next
    case (Inr s)
    with transform_heap_result [OF allocated run]
    have out: "out = Inr (Some (next_addr h))"
      and copy: "heap_props h' (next_addr h) = set_prop ''id'' (JStr s) (heap_props h a)"
      by simp_all
    from Inr have "get_prop (heap_props h a) ''_id'' \<noteq> JUndefined
              \<and> get_prop (heap_props h a) ''_id'' \<noteq> JNull
              \<and> printable (get_prop (heap_props h a) ''_id'')"
      by (simp add: toString_js_returns)
    then show ?thesis
      using transform_heap_frame [OF allocated run] out copy Inr allocated
      by (simp add: transform_record)
  qed
  from on_null on_none on_record show ?thesis by blast
qed

theorem transformTaskDocument_frame_witness:
  "transformTaskDocument_heap milk_heap (Some 0)
     = (\<lparr>cells = [0 \<mapsto> milk_doc, 1 \<mapsto> milk_task], next_addr = 2\<rparr>, Inr (Some 1))
   \<and> cells \<lparr>cells = [0 \<mapsto> milk_doc, 1 \<mapsto> milk_task], next_addr = 2\<rparr> 0 = cells milk_heap 0
   \<and> cells milk_heap 0 = Some milk_doc
   \<and> transformTaskDocument (JObj milk_doc) = Inr (JObj milk_task)
   \<and> transformTaskDocument_heap milk_heap None = (milk_heap, Inr None)
   \<and> printable (JObjectId milk_id)
   \<and> transformTaskDocument_heap keyless_heap (Some 0)
       = (\<lparr>cells = [0 \<mapsto> milk_body, 1 \<mapsto> milk_body], next_addr = 2\<rparr>,
          Inl (TypeError ''Cannot read properties of undefined (reading 'toString')''))
   \<and> cells \<lparr>cells = [0 \<mapsto> milk_body, 1 \<mapsto> milk_body], next_addr = 2\<rparr> 0
       = cells keyless_heap 0
   \<and> transformTaskDocument (JObj milk_body)
       = Inl (TypeError ''Cannot read properties of undefined (reading 'toString')'')"
proof -
  have allocated: "0 < next_addr milk_heap" "0 < next_addr keyless_heap"
    by (simp_all add: milk_heap_def keyless_heap_def)
  have throws: "transformTaskDocument_heap keyless_heap (Some 0)
       = (\<lparr>cells = [0 \<mapsto> milk_body, 1 \<mapsto> milk_body], next_addr = 2\<rparr>,
          Inl (TypeError ''Cannot read properties of undefined (reading 'toString')''))"
    by (simp add: transformTaskDocument_heap_def heap_new_def heap_props_def keyless_heap_def
        toString_js_def)
      (simp add: milk_body_def get_prop_def)
  note returns = transformTaskDocument_frame [where h = milk_heap and a = 0
      and h' = "\<lparr>cells = [0 \<mapsto> milk_doc, 1 \<mapsto> milk_task], next_addr = 2\<rparr>"
      and out = "Inr (Some 1)",
      THEN conjunct2, THEN conjunct2, THEN mp, OF conjI, OF allocated(1) transform_heap_milk]
  note thrown = transformTaskDocument_frame [where h = keyless_heap and a = 0
      and h' = "\<lparr>cells = [0 \<mapsto> milk_body, 1 \<mapsto> milk_body], next_addr = 2\<rparr>"
      and out = "Inl (TypeError ''Cannot read properties of undefined (reading 'toString')'')",
      THEN conjunct2, THEN conjunct2, THEN mp, OF conjI, OF allocated(2) throws]
  have here: "heap_props milk_heap 0 = milk_doc" "heap_props keyless_heap 0 = milk_body"
    "cells milk_heap 0 = Some milk_doc"
    "heap_props \<lparr>cells = [0 \<mapsto> milk_doc, 1 \<mapsto> milk_task], next_addr = 2\<rparr> (next_addr milk_heap)
       = milk_task"
    by (simp_all add: heap_props_def milk_heap_def keyless_heap_def)
  have kept: "cells \<lparr>cells = [0 \<mapsto> milk_doc, 1 \<mapsto> milk_task], next_addr = 2\<rparr> 0 = cells milk_heap 0"
    by (rule returns [THEN conjunct1, THEN spec, THEN mp, OF allocated(1)])
  have "transformTaskDocument (JObj (heap_props milk_heap 0))
      = Inr (JObj (heap_props \<lparr>cells = [0 \<mapsto> milk_doc, 1 \<mapsto> milk_task], next_addr = 2\<rparr>
          (next_addr milk_heap)))"
    by (rule returns [THEN conjunct2, THEN conjunct2, THEN conjunct1, THEN spec, THEN mp,
          OF refl, THEN conjunct2, THEN conjunct2])
  then have normal: "transformTaskDocument (JObj milk_doc) = Inr (JObj milk_task)"
    by (simp only: here)
  have on_none: "transformTaskDocument_heap milk_heap None = (milk_heap, Inr None)"
    by (rule transformTaskDocument_frame [where h = milk_heap, THEN conjunct2, THEN conjunct1])
  have "Inr (Some 1) = Inr (Some (next_addr milk_heap))"
    by (simp add: milk_heap_def)
  with returns [THEN conjunct2, THEN conjunct2, THEN conjunct2, THEN conjunct2, THEN conjunct1]
  have "printable (get_prop (heap_props milk_heap 0) ''_id'')"
    by blast
  then have key: "printable (JObjectId milk_id)"
    by (simp add: here milk_doc_def get_prop_def)
  have kept': "cells \<lparr>cells = [0 \<mapsto> milk_body, 1 \<mapsto> milk_body], next_addr = 2\<rparr> 0
       = cells keyless_heap 0"
    by (rule thrown [THEN conjunct1, THEN spec, THEN mp, OF allocated(2)])
  have "transformTaskDocument (JObj (heap_props keyless_heap 0))
       = Inl (TypeError ''Cannot read properties of undefined (reading 'toString')'')"
    by (rule thrown [THEN conjunct2, THEN conjunct2, THEN conjunct2, THEN conjunct1, THEN spec,
          THEN mp, OF refl])
  then have fails: "transformTaskDocument (JObj milk_body)
       = Inl (TypeError ''Cannot read properties of undefined (reading 'toString')'')"
    by (simp only: here)
  from transform_heap_milk kept here(3) normal on_none key throws kept' fails
  show ?thesis by (intro conjI)
qed

text \<open>
  The claim as stated fails: a record without \<open>_id\<close> is a non-null record, and for it the
  call throws instead of returning a new object; so it does for a record whose \<open>_id\<close> is
  an object with an own property \<open>toString\<close>. The record is unchanged in both cases.
\<close>

theorem transformTaskDocument_counterexample:
  "truthy (JObj milk_body)
   \<and> transformTaskDocument (JObj milk_body)
       = Inl (TypeError ''Cannot read properties of undefined (reading 'toString')'')
   \<and> transformTaskDocument_heap keyless_heap (Some 0)
       = (\<lparr>cells = [0 \<mapsto> milk_body, 1 \<mapsto> milk_body], next_addr = 2\<rparr>,
          Inl (TypeError ''Cannot read properties of undefined (reading 'toString')''))
   \<and> transformTaskDocument (JObj odd_key_doc)
       = Inl (TypeError ''doc._id.toString is not a function'')"
  by (simp add: transformTaskDocument_def transformTaskDocument_heap_def heap_new_def
      heap_props_def keyless_heap_def toString_js_def odd_key_doc_def)
    (simp add: milk_body_def get_prop_def)

subsection \<open>POST when the insert fails\<close>

text \<open>
  C10. In a POST /api/tasks with a truthy title whose insert fails (\<open>insertOne\<close>
  rejects, with any driver, or the Supabase reply carries an error), the error branch
  evaluates the template with \<open>id\<close>, which no enclosing scope binds: the handler ends
  with \<open>ReferenceError: id is not defined\<close> and sends no response, in particular not the
  404 body "Task with ID ... not found".
\<close>

theorem post_insert_failure_unbound_id:
  assumes "truthy (get_prop req_body ''title'')"
  shows "(insertOne D (post_task req_body created updated) st = (st', Inl e) \<longrightarrow>
            post_tasks D st created updated req_body
              = (st', Inl (ReferenceError ''id is not defined'')))
       \<and> (sb_error (supabase (SbInsert (sb_post_row req_body))) = Some m \<longrightarrow>
            sb_post_tasks supabase req_body
              = ([SbInsert (sb_post_row req_body)], Inl (ReferenceError ''id is not defined'')))"
  using assms
  by (simp add: post_tasks_def post_tasks_try_def sb_post_tasks_def Let_def
      not_found_message_post_catch not_found_message_sb_post)

theorem post_insert_failure_unbound_id_witness:
  "post_tasks milk_driver failing_store date10 date11 milk_body
     = (empty_store, Inl (ReferenceError ''id is not defined''))
   \<and> sb_post_tasks sb_down milk_body
     = ([SbInsert (sb_post_row milk_body)], Inl (ReferenceError ''id is not defined''))"
proof -
  have title: "truthy (get_prop milk_body ''title'')"
    by (simp add: milk_body_def get_prop_def)
  have rejected: "insertOne milk_driver (post_task milk_body date10 date11) failing_store
                    = (empty_store, Inl (Error ''connection lost''))"
    by (simp add: mem_insertOne_def driver_call_def failing_store_def empty_store_def)
  have refused: "sb_error (sb_down (SbInsert (sb_post_row milk_body))) = Some ''fetch failed''"
    by (simp add: sb_down_def)
  have a: "post_tasks milk_driver failing_store date10 date11 milk_body
     = (empty_store, Inl (ReferenceError ''id is not defined''))"
    by (rule post_insert_failure_unbound_id [OF title, where D = milk_driver and created = date10
        and updated = date11 and st = failing_store and st' = empty_store
        and e = "Error ''connection lost''", THEN conjunct1, THEN mp, OF rejected])
  have b: "sb_post_tasks sb_down milk_body
     = ([SbInsert (sb_post_row milk_body)], Inl (ReferenceError ''id is not defined''))"
    by (rule post_insert_failure_unbound_id [OF title, where supabase = sb_down
        and m = "''fetch failed''", THEN conjunct2, THEN mp, OF refused])
  from a b show ?thesis by simp
qed

end
